theory Spec2Isabelle
  imports Complex_Main "HOL-Library.Sublist" "HOL-Library.AList" "HOL-Library.Multiset"
begin

text \<open>
  A model of \<open>commerce_agent.py\<close> (normalising prices and ratings, parsing the output of
  one search session, comparing two platforms) and of \<open>server.py\<close> (the connection
  manager and the background task). Python's builtins are modelled first, then the
  functions of the two files in the order of the source, then the properties.
  External collaborators are parameters: the automation agent, \<open>json.loads\<close>,
  \<open>json.dumps\<close>, the agent classes of other modules and the sockets.
\<close>

section \<open>Python values\<close>

text \<open>
  Exceptions are values. Every constructor of \<open>fault\<close> stands for a subclass of
  Python's \<open>Exception\<close> and carries its message (a \<open>KeyError\<close> carries the key).
  \<open>AgentFault\<close> is any exception of class \<open>Exception\<close> raised by an external
  collaborator (the automation agent, an agent class of another module, the socket
  layer). What an awaited call can raise beyond \<open>Exception\<close> is a \<open>throwable\<close>.
\<close>

datatype fault =
    ImportError string
  | ValueError string
  | TypeError string
  | AttributeError string
  | KeyError string
  | IndexError string
  | AgentFault string

text \<open>
  A Python float that the program computes on: a finite binary64 value (held as the
  rational it denotes) or an infinity. NaN is left out: the only floats the program
  compares or sorts come from \<open>float()\<close> of a digit string, which is never NaN.
\<close>

datatype pyfloat = NInf | Fin rat | PInf

fun flt :: "pyfloat \<Rightarrow> pyfloat \<Rightarrow> bool" where
  "flt NInf b = (b \<noteq> NInf)"
| "flt (Fin x) NInf = False"
| "flt (Fin x) (Fin y) = (x < y)"
| "flt (Fin x) PInf = True"
| "flt PInf b = False"

fun fneg :: "pyfloat \<Rightarrow> pyfloat" where
  "fneg NInf = PInf"
| "fneg (Fin x) = Fin (- x)"
| "fneg PInf = NInf"

text \<open>
  The values \<open>json.loads\<close> returns and the program builds. A dict is an association
  list in insertion order with distinct keys; JSON object keys are strings.
\<close>

datatype pyval =
    PNone
  | PBool bool
  | PInt int
  | PFloat pyfloat
  | PStr string
  | PList "pyval list"
  | PDict "(string \<times> pyval) list"

type_synonym pydict = "(string \<times> pyval) list"


definition quoted :: "string \<Rightarrow> string" where
  \<comment> \<open>The text between single quotes.\<close>
  "quoted s = [CHR 0x27] @ s @ [CHR 0x27]"

definition type_name :: "pyval \<Rightarrow> string" where
  \<comment> \<open>\<open>type(v).__name__\<close>\<close>
  "type_name v =
     (case v of
        PNone \<Rightarrow> ''NoneType''
      | PBool b \<Rightarrow> ''bool''
      | PInt i \<Rightarrow> ''int''
      | PFloat f \<Rightarrow> ''float''
      | PStr s \<Rightarrow> ''str''
      | PList xs \<Rightarrow> ''list''
      | PDict d \<Rightarrow> ''dict'')"

definition no_attribute_get :: "pyval \<Rightarrow> string" where
  \<comment> \<open>The message of the \<open>AttributeError\<close> for \<open>v.get\<close> on a value without that method.\<close>
  "no_attribute_get v = quoted (type_name v) @ '' object has no attribute '' @ quoted ''get''"

section \<open>Builtins on strings\<close>

text \<open>
  A \<open>char\<close> is a code point below 256. \<open>\d\<close> of a Python 3 text pattern matches the
  decimal digits; below 256 these are \<open>0\<close> to \<open>9\<close>. \<open>str.strip()\<close> removes the code
  points for which \<open>str.isspace\<close> holds.
\<close>

definition is_digit :: "char \<Rightarrow> bool" where
  "is_digit c = (let n = (of_char c :: nat) in 48 \<le> n \<and> n \<le> 57)"

definition is_space :: "char \<Rightarrow> bool" where
  "is_space c = (of_char c \<in> set [9, 10, 11, 12, 13, 28, 29, 30, 31, 32, 133, 160 :: nat])"

definition py_strip :: "string \<Rightarrow> string" where
  "py_strip s = rev (dropWhile is_space (rev (dropWhile is_space s)))"

definition remove_commas :: "string \<Rightarrow> string" where
  \<comment> \<open>\<open>s.replace(',', '')\<close>\<close>
  "remove_commas s = filter (\<lambda>c. c \<noteq> CHR '','') s"

definition startswith :: "string \<Rightarrow> string \<Rightarrow> bool" where
  "startswith s p = prefix p s"

fun show_nat :: "nat \<Rightarrow> string" where
  "show_nat n =
     (if n < 10 then [char_of (48 + n)]
      else show_nat (n div 10) @ [char_of (48 + n mod 10)])"

declare show_nat.simps [simp del]

definition show_int :: "int \<Rightarrow> string" where
  "show_int i = (if i < 0 then CHR ''-'' # show_nat (nat (- i)) else show_nat (nat i))"

definition py_str :: "(pyval \<Rightarrow> string) \<Rightarrow> pyval \<Rightarrow> string" where
  \<comment> \<open>\<open>str(v)\<close>. The text of a float, a list or a dict is left to the parameter \<open>repr\<close>.\<close>
  "py_str repr v =
     (case v of
        PStr s \<Rightarrow> s
      | PNone \<Rightarrow> ''None''
      | PBool b \<Rightarrow> (if b then ''True'' else ''False'')
      | PInt i \<Rightarrow> show_int i
      | _ \<Rightarrow> repr v)"

subsection \<open>The pattern \<open>\d+(\.\d+)?\<close>\<close>

fun optional_fraction :: "string \<Rightarrow> string" where
  \<comment> \<open>What the group \<open>(\.\d+)?\<close> matches at the head of a text.\<close>
  "optional_fraction (c # f # fs) =
     (if c = CHR ''.'' \<and> is_digit f then c # takeWhile is_digit (f # fs) else [])"
| "optional_fraction fs = []"

definition re_search_numeral :: "string \<Rightarrow> string option" where
  \<comment> \<open>\<open>re.search(r'\d+(\.\d+)?', s)\<close>: \<open>None\<close> for no match, else \<open>match.group()\<close>.
     The leftmost match starts at the first digit; both repetitions are greedy.\<close>
  "re_search_numeral s =
     (case dropWhile (\<lambda>c. \<not> is_digit c) s of
        [] \<Rightarrow> None
      | d # ds \<Rightarrow>
          Some (takeWhile is_digit (d # ds) @ optional_fraction (dropWhile is_digit (d # ds))))"

subsection \<open>\<open>float()\<close> of a decimal numeral\<close>

definition digit_val :: "char \<Rightarrow> nat" where
  "digit_val c = of_char c - 48"

definition nat_of_digits :: "string \<Rightarrow> nat" where
  "nat_of_digits ds = foldl (\<lambda>n c. 10 * n + digit_val c) 0 ds"

definition numeral_value :: "string \<Rightarrow> rat option" where
  \<comment> \<open>The exact value of a text of the shape \<open>digits\<close> or \<open>digits.digits\<close>.\<close>
  "numeral_value m =
     (let ip = takeWhile is_digit m; rest = dropWhile is_digit m
      in if ip = [] then None
         else case rest of
                [] \<Rightarrow> Some (of_nat (nat_of_digits ip))
              | c # fp \<Rightarrow>
                  (if c = CHR ''.'' \<and> fp \<noteq> [] \<and> list_all is_digit fp
                   then Some (of_nat (nat_of_digits (ip @ fp)) / 10 ^ length fp)
                   else None))"

fun bit_length :: "nat \<Rightarrow> nat" where
  "bit_length n = (if n = 0 then 0 else Suc (bit_length (n div 2)))"

declare bit_length.simps [simp del]

primrec num_bits :: "num \<Rightarrow> nat" where
  \<comment> \<open>The number of binary digits of a literal: \<open>bit_length\<close> on numerals.\<close>
  "num_bits num.One = 1"
| "num_bits (num.Bit0 n) = Suc (num_bits n)"
| "num_bits (num.Bit1 n) = Suc (num_bits n)"

definition pow2 :: "int \<Rightarrow> rat" where
  "pow2 k = (if 0 \<le> k then 2 ^ nat k else 1 / 2 ^ nat (- k))"

definition floor_log2 :: "rat \<Rightarrow> int" where
  \<comment> \<open>For \<open>0 < q\<close>: the \<open>e\<close> with \<open>2 ^ e \<le> q < 2 ^ (e + 1)\<close>.\<close>
  "floor_log2 q =
     (if 1 \<le> q then int (bit_length (nat \<lfloor>q\<rfloor>)) - 1
      else - int (bit_length (nat (\<lceil>1 / q\<rceil> - 1))))"

definition round_half_even :: "rat \<Rightarrow> int" where
  "round_half_even x =
     (let f = \<lfloor>x\<rfloor>; d = x - of_int f
      in if d < 1 / 2 then f else if 1 / 2 < d then f + 1 else if even f then f else f + 1)"

definition round_double :: "rat \<Rightarrow> rat" where
  \<comment> \<open>Round to the nearest binary64 value, ties to even: 53 significant bits, and
     steps of \<open>2 ^ -1074\<close> below \<open>2 ^ -1022\<close>.\<close>
  "round_double q =
     (if q = 0 then 0
      else let e = max (floor_log2 q) (- 1022); u = pow2 (e - 52)
           in of_int (round_half_even (q / u)) * u)"

definition double_overflow :: rat where
  \<comment> \<open>Half way between the largest binary64 value and \<open>2 ^ 1024\<close>: from here on the
     nearest value is infinity.\<close>
  "double_overflow = 2 ^ 1024 - 2 ^ 970"

definition float_of_rat :: "rat \<Rightarrow> pyfloat" where
  "float_of_rat q = (if double_overflow \<le> q then PInf else Fin (round_double q))"

definition py_float :: "string \<Rightarrow> fault + pyfloat" where
  \<comment> \<open>\<open>float(text)\<close> on the texts the pattern above can match. Other texts that
     \<open>float\<close> accepts (signs, exponents, \<open>inf\<close>, \<open>nan\<close>) never reach it here; the model
     gives them the \<open>ValueError\<close> of a malformed text.\<close>
  "py_float m =
     (case numeral_value m of
        None \<Rightarrow> Inl (ValueError (''could not convert string to float: '' @ quoted m))
      | Some q \<Rightarrow> Inr (float_of_rat q))"

definition has_numeral :: "string \<Rightarrow> bool" where
  \<comment> \<open>The text contains a numeral: it has a digit.\<close>
  "has_numeral s = list_ex is_digit s"

definition first_numeral :: "string \<Rightarrow> rat option" where
  \<comment> \<open>The exact value of the numeral the pattern finds.\<close>
  "first_numeral s = (case re_search_numeral s of None \<Rightarrow> None | Some m \<Rightarrow> numeral_value m)"

section \<open>commerce_agent.py: normalising price and rating\<close>

definition parse_price_try :: "(pyval \<Rightarrow> string) \<Rightarrow> pyval \<Rightarrow> fault + pyfloat" where
  \<comment> \<open>The body of the \<open>try\<close> in \<open>parse_price\<close>.\<close>
  "parse_price_try repr price_str =
     (let clean = py_strip (remove_commas (py_str repr price_str))
      in case re_search_numeral clean of
           Some m \<Rightarrow> py_float m
         | None \<Rightarrow> Inr PInf)"

definition parse_price :: "(pyval \<Rightarrow> string) \<Rightarrow> pyval \<Rightarrow> pyfloat" where
  "parse_price repr price_str =
     (case parse_price_try repr price_str of Inr v \<Rightarrow> v | Inl e \<Rightarrow> PInf)"

definition parse_rating_try :: "(pyval \<Rightarrow> string) \<Rightarrow> pyval \<Rightarrow> fault + pyfloat" where
  "parse_rating_try repr rating_str =
     (let clean = py_strip (py_str repr rating_str)
      in case re_search_numeral clean of
           Some m \<Rightarrow> py_float m
         | None \<Rightarrow> Inr (Fin 0))"

definition parse_rating :: "(pyval \<Rightarrow> string) \<Rightarrow> pyval \<Rightarrow> pyfloat" where
  "parse_rating repr rating_str =
     (case parse_rating_try repr rating_str of Inr v \<Rightarrow> v | Inl e \<Rightarrow> Fin 0)"

subsection \<open>\<open>in\<close>, \<open>str.split\<close> and indexing\<close>

fun find_sep :: "string \<Rightarrow> string \<Rightarrow> (string \<times> string) option" where
  \<comment> \<open>The text before and after the leftmost occurrence of \<open>sep\<close>.\<close>
  "find_sep sep [] = (if sep = [] then Some ([], []) else None)"
| "find_sep sep (c # cs) =
     (if prefix sep (c # cs) then Some ([], drop (length sep) (c # cs))
      else map_option (\<lambda>(b, a). (c # b, a)) (find_sep sep cs))"

definition contains :: "string \<Rightarrow> string \<Rightarrow> bool" where
  \<comment> \<open>\<open>sep in s\<close>\<close>
  "contains s sep = (find_sep sep s \<noteq> None)"

function py_split :: "string \<Rightarrow> string \<Rightarrow> string list" where
  \<comment> \<open>\<open>s.split(sep)\<close> for a non-empty \<open>sep\<close>, the only kind the program passes (Python
     raises \<open>ValueError\<close> on an empty one; the model returns \<open>[s]\<close>).\<close>
  "py_split sep s =
     (if sep = [] then [s]
      else case find_sep sep s of
             None \<Rightarrow> [s]
           | Some (b, a) \<Rightarrow> b # py_split sep a)"
  by pat_completeness auto
termination
proof (relation "measure (\<lambda>(sep, s). length s)")
  show "wf (measure (\<lambda>(sep, s). length s))" by simp
next
  fix sep s :: string and x2 :: "string \<times> string" and b a :: string
  assume ne: "sep \<noteq> []" and f: "find_sep sep s = Some x2" and x: "(b, a) = x2"
  have "\<And>b a. find_sep sep s = Some (b, a) \<Longrightarrow> length a < length s"
  proof (induction s)
    case Nil
    with ne show ?case by simp
  next
    case (Cons c cs)
    show ?case
    proof (cases "prefix sep (c # cs)")
      case True
      with Cons.prems ne show ?thesis by auto
    next
      case False
      with Cons.prems obtain b' where "find_sep sep cs = Some (b', a)"
        by (auto split: prod.splits)
      with Cons.IH show ?thesis by fastforce
    qed
  qed
  with f x show "((sep, a), (sep, s)) \<in> measure (\<lambda>(sep, s). length s)" by auto
qed

declare py_split.simps [simp del]

definition py_index :: "'a list \<Rightarrow> nat \<Rightarrow> fault + 'a" where
  \<comment> \<open>\<open>xs[i]\<close> for \<open>i \<ge> 0\<close>\<close>
  "py_index xs i =
     (if i < length xs then Inr (xs ! i) else Inl (IndexError ''list index out of range''))"

subsection \<open>Dicts and iteration\<close>

definition dict_get :: "pydict \<Rightarrow> string \<Rightarrow> pyval \<Rightarrow> pyval" where
  \<comment> \<open>\<open>d.get(k, default)\<close>\<close>
  "dict_get d k dflt = (case map_of d k of Some v \<Rightarrow> v | None \<Rightarrow> dflt)"



definition py_iter :: "pyval \<Rightarrow> fault + pyval list" where
  \<comment> \<open>The elements a \<open>for\<close> loop over the value visits.\<close>
  "py_iter v =
     (case v of
        PList xs \<Rightarrow> Inr xs
      | PStr s \<Rightarrow> Inr (map (\<lambda>c. PStr [c]) s)
      | PDict d \<Rightarrow> Inr (map (\<lambda>kv. PStr (fst kv)) d)
      | _ \<Rightarrow> Inl (TypeError (quoted (type_name v) @ '' object is not iterable'')))"


subsection \<open>\<open>list.sort(key=...)\<close>\<close>

text \<open>
  \<open>list.sort\<close> computes the key of every element first and then sorts stably, comparing
  keys with \<open><\<close> only. On keys that \<open><\<close> orders totally the result is the one of a stable
  insertion sort.
\<close>

fun insort_stable :: "('k \<Rightarrow> 'k \<Rightarrow> bool) \<Rightarrow> 'k \<times> 'a \<Rightarrow> ('k \<times> 'a) list \<Rightarrow> ('k \<times> 'a) list" where
  "insort_stable lt x [] = [x]"
| "insort_stable lt x (y # ys) =
     (if lt (fst y) (fst x) then y # insort_stable lt x ys else x # y # ys)"

definition stable_sort :: "('k \<Rightarrow> 'k \<Rightarrow> bool) \<Rightarrow> ('k \<times> 'a) list \<Rightarrow> ('k \<times> 'a) list" where
  "stable_sort lt xs = foldr (insort_stable lt) xs []"

fun tuple_lt :: "pyfloat \<times> pyfloat \<Rightarrow> pyfloat \<times> pyfloat \<Rightarrow> bool" where
  \<comment> \<open>\<open><\<close> on pairs: the first components decide unless they are equal.\<close>
  "tuple_lt (a1, b1) (a2, b2) = (if a1 = a2 then flt b1 b2 else flt a1 a2)"

section \<open>commerce_agent.py: one search session\<close>

definition fence :: string where
  \<comment> \<open>three backticks\<close>
  "fence = [CHR 0x60, CHR 0x60, CHR 0x60]"

definition fence_json :: string where
  "fence_json = fence @ ''json''"

definition strip_fence :: "string \<Rightarrow> fault + string" where
  \<comment> \<open>Lines 79 to 83 of \<open>perform_search\<close>.\<close>
  "strip_fence output =
     (let json_str = py_strip output
      in if contains json_str fence_json then
           (case py_index (py_split fence_json json_str) 1 of
              Inl e \<Rightarrow> Inl e
            | Inr a \<Rightarrow>
                (case py_index (py_split fence a) 0 of
                   Inl e \<Rightarrow> Inl e
                 | Inr b \<Rightarrow> Inr (py_strip b)))
         else if contains json_str fence then
           (case py_index (py_split fence json_str) 1 of
              Inl e \<Rightarrow> Inl e
            | Inr a \<Rightarrow>
                (case py_index (py_split fence a) 0 of
                   Inl e \<Rightarrow> Inl e
                 | Inr b \<Rightarrow> Inr (py_strip b)))
         else Inr json_str)"

fun collect_valid :: "(pyval \<Rightarrow> string) \<Rightarrow> pyval list \<Rightarrow> pydict list \<Rightarrow> fault + pydict list" where
  \<comment> \<open>The loop of lines 91 to 95; the last argument is \<open>valid_items\<close> so far. An element
     that is not a dict has no \<open>get\<close>.\<close>
  "collect_valid repr [] valid_items = Inr valid_items"
| "collect_valid repr (item # items) valid_items =
     (case item of
        PDict d \<Rightarrow>
          (let numeric_price = parse_price repr (dict_get d ''price'' (PStr ''999999''));
               d1 = AList.update ''numeric_price'' (PFloat numeric_price) d;
               numeric_rating = parse_rating repr (dict_get d1 ''rating'' (PStr ''0''));
               d2 = AList.update ''numeric_rating'' (PFloat numeric_rating) d1
           in if flt (Fin 0) numeric_price
              then collect_valid repr items (valid_items @ [d2])
              else collect_valid repr items valid_items)
      | _ \<Rightarrow> Inl (AttributeError (no_attribute_get item)))"

definition decode_items ::
  "(string \<Rightarrow> fault + pyval) \<Rightarrow> (pyval \<Rightarrow> string) \<Rightarrow> string \<Rightarrow> fault + pydict list option" where
  \<comment> \<open>Lines 79 to 95: \<open>Inr None\<close> when the text starts with neither bracket and nothing is
     decoded, \<open>Inr (Some valid_items)\<close> after the loop, \<open>Inl\<close> for an exception.\<close>
  "decode_items loads repr output =
     (case strip_fence output of
        Inl e \<Rightarrow> Inl e
      | Inr json_str \<Rightarrow>
          if startswith json_str ''['' \<or> startswith json_str ''{'' then
            (case loads json_str of
               Inl e \<Rightarrow> Inl e
             | Inr decoded \<Rightarrow>
                 (case py_iter (case decoded of PDict d \<Rightarrow> PList [decoded] | _ \<Rightarrow> decoded) of
                    Inl e \<Rightarrow> Inl e
                  | Inr items \<Rightarrow>
                      (case collect_valid repr items [] of
                         Inl e \<Rightarrow> Inl e
                       | Inr valid_items \<Rightarrow> Inr (Some valid_items))))
          else Inr None)"

definition item_float :: "pydict \<Rightarrow> string \<Rightarrow> fault + pyfloat" where
  \<comment> \<open>\<open>x[k]\<close> read as a float. The two numeric entries are floats wherever the program
     reads them; the model does not compute on any other kind of value.\<close>
  "item_float x k =
     (case map_of x k of
        None \<Rightarrow> Inl (KeyError k)
      | Some (PFloat f) \<Rightarrow> Inr f
      | Some _ \<Rightarrow> Inl (TypeError ''not a float''))"

definition sort_key :: "pydict \<Rightarrow> fault + pyfloat \<times> pyfloat" where
  \<comment> \<open>\<open>lambda x: (x['numeric_price'], -x['numeric_rating'])\<close>\<close>
  "sort_key x =
     (case item_float x ''numeric_price'' of
        Inl e \<Rightarrow> Inl e
      | Inr p \<Rightarrow>
          (case item_float x ''numeric_rating'' of
             Inl e \<Rightarrow> Inl e
           | Inr r \<Rightarrow> Inr (p, fneg r)))"

fun decorate :: "pydict list \<Rightarrow> fault + ((pyfloat \<times> pyfloat) \<times> pydict) list" where
  "decorate [] = Inr []"
| "decorate (x # xs) =
     (case sort_key x of
        Inl e \<Rightarrow> Inl e
      | Inr k \<Rightarrow> (case decorate xs of Inl e \<Rightarrow> Inl e | Inr ks \<Rightarrow> Inr ((k, x) # ks)))"

definition list_sort :: "pydict list \<Rightarrow> fault + pydict list" where
  \<comment> \<open>\<open>valid_items.sort(key=lambda x: (x['numeric_price'], -x['numeric_rating']))\<close>\<close>
  "list_sort xs =
     (case decorate xs of
        Inl e \<Rightarrow> Inl e
      | Inr ks \<Rightarrow> Inr (map snd (stable_sort tuple_lt ks)))"

text \<open>
  \<open>result_data\<close> is the dict that \<open>perform_search\<close> builds and returns. While it is built,
  its \<open>items\<close> entry is a reference to a list object in a store, because
  \<open>result_data["items"] = valid_items\<close> shares the list that \<open>valid_items.sort\<close> later
  reorders in place. The caller sees the record with the list read from the final store.
\<close>

type_synonym addr = nat

type_synonym store = "addr \<Rightarrow> pydict list"

record 'i result_data =
  platform :: string
  status :: string
  items :: 'i
  best_item :: "pydict option"
  raw_response :: string

type_synonym session_result = "pydict list result_data"

definition snapshot :: "store \<Rightarrow> addr result_data \<Rightarrow> session_result" where
  "snapshot st rd =
     \<lparr>platform = platform rd, status = status rd, items = st (items rd),
      best_item = best_item rd, raw_response = raw_response rd\<rparr>"

definition parse_try ::
  "(string \<Rightarrow> fault + pyval) \<Rightarrow> (pyval \<Rightarrow> string) \<Rightarrow> string \<Rightarrow> store \<times> addr result_data
     \<Rightarrow> store \<times> addr result_data" where
  \<comment> \<open>The \<open>try\<close> statement of lines 76 to 105, on the store and \<open>result_data\<close>. The handler
     only prints, so an exception leaves what was assigned before it. Address 1 is the
     list object \<open>valid_items\<close>.\<close>
  "parse_try loads repr output s =
     (case decode_items loads repr output of
        Inl e \<Rightarrow> s
      | Inr None \<Rightarrow> s
      | Inr (Some valid_items) \<Rightarrow>
          (let st1 = (fst s)(1 := valid_items);
               rd1 = (snd s)\<lparr>items := 1, status := ''success''\<rparr>
           in if st1 1 \<noteq> [] then
                (case list_sort (st1 1) of
                   Inl e \<Rightarrow> (st1, rd1)
                 | Inr sorted_items \<Rightarrow>
                     (let st2 = st1(1 := sorted_items)
                      in case py_index (st2 1) 0 of
                           Inl e \<Rightarrow> (st2, rd1)
                         | Inr first \<Rightarrow> (st2, rd1\<lparr>best_item := Some first\<rparr>)))
              else (st1, rd1)))"

definition parse_result ::
  "(string \<Rightarrow> fault + pyval) \<Rightarrow> (pyval \<Rightarrow> string) \<Rightarrow> string \<Rightarrow> string \<Rightarrow> session_result" where
  \<comment> \<open>Lines 67 to 107 of \<open>perform_search\<close>: from the text of the agent's output to the
     returned \<open>result_data\<close>. Address 0 is the empty list of the initial \<open>"items": []\<close>.\<close>
  "parse_result loads repr app_name output =
     (let st0 = (\<lambda>a. []);
          result_data = \<lparr>platform = app_name, status = ''failed'', items = 0,
                         best_item = None, raw_response = output\<rparr>;
          s = parse_try loads repr output (st0, result_data)
      in snapshot (fst s) (snd s))"

text \<open>
  The external collaborators of a run: whether the \<open>droidrun\<close> import succeeded, what
  running an agent on a goal gives (the text \<open>str(output)\<close> or the exception it raises),
  \<open>json.loads\<close>, and the text of the values \<open>py_str\<close> leaves open.
\<close>

record env =
  droid_available :: bool
  agent_run :: "string \<Rightarrow> fault + string"
  json_loads :: "string \<Rightarrow> fault + pyval"
  py_repr :: "pyval \<Rightarrow> string"

definition task_goal :: "string \<Rightarrow> string \<Rightarrow> string \<Rightarrow> string" where
  "task_goal app_name query item_type =
     ''Open '' @ app_name @ ''. Search for '' @ [CHR 0x27] @ query @ [CHR 0x27] @ ''. ''
     @ ''Look at the search results and find the best '' @ item_type @ ''s. ''
     @ ''Return a JSON list of the top 3 items with keys: title, price, rating. ''
     @ ''The output must be a valid JSON string.''"

definition perform_search ::
  "env \<Rightarrow> string \<Rightarrow> string \<Rightarrow> string \<Rightarrow> string list \<Rightarrow> string list \<times> (fault + session_result)" where
  \<comment> \<open>The last argument and the first component of the result are the goals the device
     has been given so far, in order.\<close>
  "perform_search e app_name query item_type device =
     (if \<not> droid_available e
      then (device, Inl (ImportError ''droidrun library not found. Please install it.''))
      else (let goal = task_goal app_name query item_type
            in case agent_run e goal of
                 Inl ex \<Rightarrow> (device @ [goal], Inl ex)
               | Inr output \<Rightarrow>
                   (device @ [goal],
                    Inr (parse_result (json_loads e) (py_repr e) app_name output))))"

section \<open>commerce_agent.py: comparing two platforms\<close>

datatype task = Shopping | Food

definition lower_char :: "char \<Rightarrow> char" where
  "lower_char c =
     (let n = (of_char c :: nat)
      in if (65 \<le> n \<and> n \<le> 90) \<or> (192 \<le> n \<and> n \<le> 222 \<and> n \<noteq> 215)
         then char_of (n + 32) else c)"

definition py_lower :: "string \<Rightarrow> string" where
  "py_lower s = map lower_char s"

fun search_all ::
  "env \<Rightarrow> string \<Rightarrow> string \<Rightarrow> string list \<Rightarrow> (string \<times> session_result) list \<Rightarrow> string list
     \<Rightarrow> string list \<times> (fault + (string \<times> session_result) list)" where
  \<comment> \<open>The loop of lines 131 to 133 over the platforms left, on the dict \<open>results\<close>.\<close>
  "search_all e query item_type [] results device = (device, Inr results)"
| "search_all e query item_type (plat # plats) results device =
     (case perform_search e plat query item_type device of
        (device', Inl ex) \<Rightarrow> (device', Inl ex)
      | (device', Inr res) \<Rightarrow>
          search_all e query item_type plats (AList.update (py_lower plat) res results) device')"

definition truthy_item :: "pydict option \<Rightarrow> bool" where
  \<comment> \<open>The truth value of \<open>best_item\<close>: \<open>None\<close> and the empty dict are false.\<close>
  "truthy_item b = (case b of None \<Rightarrow> False | Some d \<Rightarrow> d \<noteq> [])"

definition compare_best ::
  "string \<Rightarrow> string \<Rightarrow> pydict \<Rightarrow> pydict \<Rightarrow> fault + string option \<times> string" where
  \<comment> \<open>Lines 143 to 155: both best items are there.\<close>
  "compare_best p0 p1 param1 param2 =
     (case item_float param1 ''numeric_price'' of
        Inl ex \<Rightarrow> Inl ex
      | Inr price1 \<Rightarrow>
          (case item_float param2 ''numeric_price'' of
             Inl ex \<Rightarrow> Inl ex
           | Inr price2 \<Rightarrow>
               if flt price1 price2 then Inr (Some p0, p0 @ '' is cheaper.'')
               else if flt price2 price1 then Inr (Some p1, p1 @ '' is cheaper.'')
               else
                 (case item_float param1 ''numeric_rating'' of
                    Inl ex \<Rightarrow> Inl ex
                  | Inr rating1 \<Rightarrow>
                      (case item_float param2 ''numeric_rating'' of
                         Inl ex \<Rightarrow> Inl ex
                       | Inr rating2 \<Rightarrow>
                           if flt rating2 rating1
                           then Inr (Some p0, ''Prices equal, but '' @ p0 @ '' has better rating.'')
                           else Inr (Some p1, ''Prices equal, but '' @ p1 @ '' has better rating.'')))))"

definition comparison_logic ::
  "string \<Rightarrow> string \<Rightarrow> pydict option \<Rightarrow> pydict option \<Rightarrow> fault + string option \<times> string" where
  \<comment> \<open>Lines 139 to 161, for \<open>platforms = [p0, p1]\<close>.\<close>
  "comparison_logic p0 p1 param1 param2 =
     (if truthy_item param1 \<and> truthy_item param2 then
        (case (param1, param2) of
           (Some a, Some b) \<Rightarrow> compare_best p0 p1 a b
         | _ \<Rightarrow> Inr (None, ''No valid items found.''))
      else if truthy_item param1 then Inr (Some p0, ''Only found on '' @ p0 @ ''.'')
      else if truthy_item param2 then Inr (Some p1, ''Only found on '' @ p1 @ ''.'')
      else Inr (None, ''No valid items found.''))"

record final_output =
  query :: string
  category :: string
  winner_platform :: "string option"
  recommendation :: string
  details :: "(string \<times> session_result) list"

definition task_name :: "task \<Rightarrow> string" where
  "task_name t = (case t of Shopping \<Rightarrow> ''shopping'' | Food \<Rightarrow> ''food'')"

definition platforms_of :: "task \<Rightarrow> string \<times> string" where
  "platforms_of t = (case t of Shopping \<Rightarrow> (''Amazon'', ''Flipkart'') | Food \<Rightarrow> (''Zomato'', ''Swiggy''))"

definition item_type_of :: "task \<Rightarrow> string" where
  "item_type_of t = (case t of Shopping \<Rightarrow> ''product'' | Food \<Rightarrow> ''food'')"

definition best_of :: "(string \<times> session_result) list \<Rightarrow> string \<Rightarrow> pydict option" where
  \<comment> \<open>\<open>results.get(key, {}).get('best_item')\<close>\<close>
  "best_of results key = (case map_of results key of None \<Rightarrow> None | Some r \<Rightarrow> best_item r)"

definition main_async ::
  "env \<Rightarrow> task \<Rightarrow> string \<Rightarrow> string list \<Rightarrow> string list \<times> (fault + final_output)" where
  \<comment> \<open>\<open>main_async\<close> after argument parsing: \<open>--task\<close> is one of its two choices and
     \<open>--query\<close> is required. The result is the document that is printed.\<close>
  "main_async e t q device =
     (let p0 = fst (platforms_of t); p1 = snd (platforms_of t)
      in case search_all e q (item_type_of t) [p0, p1] [] device of
           (device', Inl ex) \<Rightarrow> (device', Inl ex)
         | (device', Inr results) \<Rightarrow>
             (let param1 = best_of results (py_lower p0);
                  param2 = best_of results (py_lower p1)
              in case comparison_logic p0 p1 param1 param2 of
                   Inl ex \<Rightarrow> (device', Inl ex)
                 | Inr (best_platform, rec) \<Rightarrow>
                     (device',
                      Inr \<lparr>query = q, category = task_name t, winner_platform = best_platform,
                           recommendation = rec, details = results\<rparr>)))"

section \<open>server.py: the connection manager\<close>

text \<open>
  A websocket is an object; the model names it by a number. \<open>active_connections\<close> is the
  list of the manager. The network is what the sockets were asked to send and what
  arrived; \<open>failing\<close> tells for which sockets \<open>send_text\<close> raises.
\<close>

type_synonym websocket = nat


definition connect :: "(websocket \<Rightarrow> fault option) \<Rightarrow> websocket \<Rightarrow> websocket list \<Rightarrow> fault + websocket list" where
  \<comment> \<open>\<open>accept\<close> is the framework's handshake; it may raise.\<close>
  "connect accept websocket active_connections =
     (case accept websocket of
        Some ex \<Rightarrow> Inl ex
      | None \<Rightarrow> Inr (active_connections @ [websocket]))"

definition disconnect :: "websocket \<Rightarrow> websocket list \<Rightarrow> fault + websocket list" where
  \<comment> \<open>\<open>list.remove\<close> deletes the first occurrence and raises \<open>ValueError\<close> when there is
     none.\<close>
  "disconnect websocket active_connections =
     (if websocket \<in> set active_connections
      then Inr (remove1 websocket active_connections)
      else Inl (ValueError ''list.remove(x): x not in list''))"







section \<open>server.py: the background task\<close>














section \<open>Notions the properties are stated with\<close>

definition price_rating :: "pydict \<Rightarrow> fault + pyfloat \<times> pyfloat" where
  \<comment> \<open>\<open>(x['numeric_price'], x['numeric_rating'])\<close>\<close>
  "price_rating x =
     (case item_float x ''numeric_price'' of
        Inl ex \<Rightarrow> Inl ex
      | Inr p \<Rightarrow> (case item_float x ''numeric_rating'' of Inl ex \<Rightarrow> Inl ex | Inr r \<Rightarrow> Inr (p, r)))"

fun ranks_le :: "pyfloat \<times> pyfloat \<Rightarrow> pyfloat \<times> pyfloat \<Rightarrow> bool" where
  \<comment> \<open>Price ascending, rating descending: the first pair may stand before the second.\<close>
  "ranks_le (p1, r1) (p2, r2) = (flt p1 p2 \<or> (p1 = p2 \<and> \<not> flt r1 r2))"

definition is_dict :: "pyval \<Rightarrow> bool" where
  "is_dict v = (case v of PDict d \<Rightarrow> True | _ \<Rightarrow> False)"

definition candidates_are_objects :: "pyval \<Rightarrow> bool" where
  \<comment> \<open>The decoded value is one object, or a sequence whose elements are all objects.\<close>
  "candidates_are_objects decoded =
     (case py_iter (case decoded of PDict d \<Rightarrow> PList [decoded] | _ \<Rightarrow> decoded) of
        Inl ex \<Rightarrow> False
      | Inr xs \<Rightarrow> list_all is_dict xs)"

definition decode_succeeds :: "(string \<Rightarrow> fault + pyval) \<Rightarrow> string \<Rightarrow> bool" where
  \<comment> \<open>Structured decode is tried on the text left after fence stripping, and succeeds.\<close>
  "decode_succeeds loads output =
     (case strip_fence output of
        Inl ex \<Rightarrow> False
      | Inr json_str \<Rightarrow>
          (startswith json_str ''['' \<or> startswith json_str ''{'')
          \<and> (case loads json_str of Inl ex \<Rightarrow> False | Inr decoded \<Rightarrow> True))"

definition decoded_objects :: "(string \<Rightarrow> fault + pyval) \<Rightarrow> string \<Rightarrow> bool" where
  \<comment> \<open>Structured decode succeeds and every candidate is an object.\<close>
  "decoded_objects loads output =
     (case strip_fence output of
        Inl ex \<Rightarrow> False
      | Inr json_str \<Rightarrow>
          (startswith json_str ''['' \<or> startswith json_str ''{'')
          \<and> (case loads json_str of Inl ex \<Rightarrow> False | Inr decoded \<Rightarrow> candidates_are_objects decoded))"





definition wf_item :: "pydict \<Rightarrow> bool" where
  \<comment> \<open>Both numeric entries are there and are floats.\<close>
  "wf_item x = (case price_rating x of Inl ex \<Rightarrow> False | Inr pr \<Rightarrow> True)"

definition failed_result :: "string \<Rightarrow> string \<Rightarrow> session_result" where
  \<comment> \<open>Status \<open>failed\<close>, no items, no best item, the raw text kept.\<close>
  "failed_result app_name output =
     \<lparr>platform = app_name, status = ''failed'', items = [], best_item = None, raw_response = output\<rparr>"

definition newline :: char where
  "newline = CHR 0x0A"

definition fenced_json :: "string \<Rightarrow> string" where
  \<comment> \<open>The text inside a fenced code block with the \<open>json\<close> tag.\<close>
  "fenced_json t = fence_json @ [newline] @ t @ [newline] @ fence"

section \<open>Sample inputs\<close>

definition sample_loads :: "string \<Rightarrow> fault + pyval" where
  \<comment> \<open>\<open>json.loads\<close> on the texts of the examples below. Only these texts are ever given
     to it; the last line stands for no other behaviour of \<open>json.loads\<close>.\<close>
  "sample_loads s =
     (if s = ''[1]'' then Inr (PList [PInt 1])
      else if s = ''{}'' then Inr (PDict [])
      else if s = ''[]'' then Inr (PList [])
      else if s = ''[{\"title\":\"Phone\",\"price\":\"$199.99\",\"rating\":\"4.5 stars\"}]''
        then Inr (PList [PDict [(''title'', PStr ''Phone''), (''price'', PStr ''$199.99''),
                                (''rating'', PStr ''4.5 stars'')]])
      else if s = ''[{\"title\":\"A\",\"price\":\"20\",\"rating\":\"4\"},{\"title\":\"B\",\"price\":\"10\",\"rating\":\"3\"}]''
        then Inr (PList [PDict [(''title'', PStr ''A''), (''price'', PStr ''20''), (''rating'', PStr ''4'')],
                         PDict [(''title'', PStr ''B''), (''price'', PStr ''10''), (''rating'', PStr ''3'')]])
      else if s = ''[{\"title\":\"C\",\"price\":\"10\",\"rating\":\"3\"}]''
        then Inr (PList [PDict [(''title'', PStr ''C''), (''price'', PStr ''10''), (''rating'', PStr ''3'')]])
      else if s = ''[{\"title\":\"D\",\"price\":\"10\",\"rating\":\"5\"}]''
        then Inr (PList [PDict [(''title'', PStr ''D''), (''price'', PStr ''10''), (''rating'', PStr ''5'')]])
      else if s = ''[{\"title\":\"a''
        then Inl (ValueError ''Unterminated string starting at: line 1 column 11 (char 10)'')
      else if s = ''[oops''
        then Inl (ValueError ''Expecting value: line 1 column 2 (char 1)'')
      else Inl (ValueError ''not one of the sample texts''))"

definition sample_repr :: "pyval \<Rightarrow> string" where
  \<comment> \<open>The examples below hold strings only, so the text of other values is never asked
     for.\<close>
  "sample_repr v = []"

definition backticks_in_title :: string where
  \<comment> \<open>The JSON list of one item whose title is \<open>a\<close>, a fence, \<open>{}\<close> and a fence.\<close>
  "backticks_in_title = ''[{\"title\":\"a'' @ fence @ ''{}'' @ fence @ ''\"}]''"

definition sample_env :: "string \<Rightarrow> string \<Rightarrow> env" where
  \<comment> \<open>A run in which the agent answers the Amazon search for \<open>phone\<close> with the first
     text and every other goal with the second.\<close>
  "sample_env out_amazon out_other =
     \<lparr>droid_available = True,
      agent_run = (\<lambda>goal. if goal = task_goal ''Amazon'' ''phone'' ''product''
                           then Inr out_amazon else Inr out_other),
      json_loads = sample_loads, py_repr = sample_repr\<rparr>"

definition faulting_env :: env where
  \<comment> \<open>A run in which the agent raises on the Amazon search for \<open>phone\<close> and answers
     every other goal with an empty list.\<close>
  "faulting_env =
     \<lparr>droid_available = True,
      agent_run = (\<lambda>goal. if goal = task_goal ''Amazon'' ''phone'' ''product''
                           then Inl (AgentFault ''device offline'') else Inr ''[]''),
      json_loads = sample_loads, py_repr = sample_repr\<rparr>"







section \<open>Facts about the builtins\<close>

subsection \<open>Evaluating the rounding\<close>

lemma bit_length_0: "bit_length 0 = 0"
  by (simp add: bit_length.simps)

lemma bit_length_1: "bit_length 1 = 1" "bit_length (Suc 0) = 1"
  by (simp_all add: bit_length.simps [of 1] bit_length.simps [of 0] bit_length.simps [of "Suc 0"])

lemma bit_length_numeral: "bit_length (numeral n) = num_bits n"
proof (induction n)
  case One
  show ?case using bit_length_1 by simp
next
  case (Bit0 n)
  have "bit_length (numeral (num.Bit0 n)) = Suc (bit_length (numeral (num.Bit0 n) div 2))"
    by (subst bit_length.simps) simp
  also have "(numeral (num.Bit0 n) :: nat) div 2 = numeral n"
    by (simp add: numeral_Bit0_div_2)
  finally show ?case using Bit0 by simp
next
  case (Bit1 n)
  have "bit_length (numeral (num.Bit1 n)) = Suc (bit_length (numeral (num.Bit1 n) div 2))"
    by (subst bit_length.simps) simp
  also have "(numeral (num.Bit1 n) :: nat) div 2 = numeral n"
    by (simp add: numeral_Bit1_div_2)
  finally show ?case using Bit1 by simp
qed

lemma floor_rat_numeral: "\<lfloor>numeral a / numeral b :: rat\<rfloor> = numeral a div numeral b"
  by (metis floor_divide_of_int_eq of_int_numeral)

lemma ceiling_rat_numeral: "\<lceil>numeral a / numeral b :: rat\<rceil> = - (- numeral a div numeral b)"
  by (metis ceiling_divide_eq_div of_int_numeral)

lemmas float_eval = round_double_def floor_log2_def pow2_def round_half_even_def Let_def
  bit_length_numeral bit_length_0 bit_length_1 floor_rat_numeral ceiling_rat_numeral

subsection \<open>Digits and numerals\<close>

lemma is_digit_not_space: "is_digit c \<Longrightarrow> \<not> is_space c"
  by (auto simp: is_digit_def is_space_def Let_def)

lemma is_digit_not_comma: "is_digit c \<Longrightarrow> c \<noteq> CHR '',''"
  by (auto simp: is_digit_def)

lemma not_digit_dot: "\<not> is_digit (CHR ''.'')"
  by (simp add: is_digit_def)

lemma list_ex_dropWhile:
  "(\<And>c. P c \<Longrightarrow> \<not> Q c) \<Longrightarrow> list_ex P (dropWhile Q s) = list_ex P s"
  by (induction s) auto

lemma list_ex_strip: "list_ex is_digit (py_strip s) = list_ex is_digit s"
proof -
  have "list_ex is_digit (py_strip s) = list_ex is_digit (dropWhile is_space (rev (dropWhile is_space s)))"
    by (simp add: py_strip_def list_ex_iff)
  also have "\<dots> = list_ex is_digit (rev (dropWhile is_space s))"
    by (rule list_ex_dropWhile) (rule is_digit_not_space)
  also have "\<dots> = list_ex is_digit (dropWhile is_space s)"
    by (simp add: list_ex_iff)
  also have "\<dots> = list_ex is_digit s"
    by (rule list_ex_dropWhile) (rule is_digit_not_space)
  finally show ?thesis .
qed

lemma list_ex_remove_commas: "list_ex is_digit (remove_commas s) = list_ex is_digit s"
  by (auto simp: remove_commas_def list_ex_iff dest: is_digit_not_comma)

lemma no_digit_dropWhile: "dropWhile (\<lambda>c. \<not> is_digit c) s = [] \<longleftrightarrow> \<not> list_ex is_digit s"
  by (induction s) auto

lemma re_search_None: "re_search_numeral s = None \<longleftrightarrow> \<not> list_ex is_digit s"
proof (cases "dropWhile (\<lambda>c. \<not> is_digit c) s")
  case Nil
  then have "re_search_numeral s = None" by (simp only: re_search_numeral_def list.case)
  moreover from Nil have "\<not> list_ex is_digit s" by (simp only: no_digit_dropWhile [symmetric])
  ultimately show ?thesis by simp
next
  case (Cons d ds)
  have "re_search_numeral s \<noteq> None"
    by (simp only: re_search_numeral_def Cons list.case option.distinct not_False_eq_True)
  moreover from Cons have "list_ex is_digit s" using no_digit_dropWhile [of s] by simp
  ultimately show ?thesis by simp 
qed

lemma optional_fraction_cases:
  "optional_fraction r = [] \<or> (\<exists>fp. optional_fraction r = CHR ''.'' # fp \<and> fp \<noteq> [] \<and> list_all is_digit fp)"
proof (cases r rule: optional_fraction.cases)
  case (1 c f fs)
  have "list_all is_digit (takeWhile is_digit (f # fs))"
    by (auto simp: list_all_iff dest: set_takeWhileD)
  moreover have "is_digit f \<Longrightarrow> takeWhile is_digit (f # fs) \<noteq> []" by simp
  ultimately show ?thesis using 1 by auto
qed simp_all

lemma numeral_value_int:
  assumes "ip \<noteq> []" "list_all is_digit ip"
  shows "numeral_value ip = Some (of_nat (nat_of_digits ip))"
proof -
  from assms(2) have tw: "takeWhile is_digit ip = ip" and dw: "dropWhile is_digit ip = []"
    by (simp_all add: list_all_iff)
  show ?thesis unfolding numeral_value_def Let_def tw dw using assms(1) by simp
qed

lemma numeral_value_frac:
  assumes "ip \<noteq> []" "list_all is_digit ip" "fp \<noteq> []" "list_all is_digit fp"
  shows "numeral_value (ip @ CHR ''.'' # fp) = Some (of_nat (nat_of_digits (ip @ fp)) / 10 ^ length fp)"
proof -
  from assms(2) have tw: "takeWhile is_digit (ip @ CHR ''.'' # fp) = ip"
    using not_digit_dot by (simp add: list_all_iff takeWhile_append2)
  from assms(2) have dw: "dropWhile is_digit (ip @ CHR ''.'' # fp) = CHR ''.'' # fp"
    using not_digit_dot by (simp add: list_all_iff dropWhile_append2)
  show ?thesis unfolding numeral_value_def Let_def tw dw using assms(1,3,4) by simp
qed

lemma re_search_Some:
  assumes "re_search_numeral s = Some m"
  shows "\<exists>q. numeral_value m = Some q \<and> 0 \<le> q"
proof (cases "dropWhile (\<lambda>c. \<not> is_digit c) s")
  case Nil
  then have "re_search_numeral s = None" by (simp only: re_search_numeral_def list.case)
  with assms show ?thesis by simp
next
  case (Cons d ds)
  have "d \<in> set (dropWhile (\<lambda>c. \<not> is_digit c) s)" by (simp only: Cons list.set_intros)
  then have d: "is_digit d" using Cons by (metis hd_dropWhile list.distinct(1) list.sel(1))
  define ip where "ip = takeWhile is_digit (d # ds)"
  define rest where "rest = dropWhile is_digit (d # ds)"
  have ip: "ip \<noteq> []" "list_all is_digit ip"
    using d by (auto simp: ip_def list_all_iff dest: set_takeWhileD)
  have "re_search_numeral s = Some (ip @ optional_fraction rest)"
    by (simp only: re_search_numeral_def Cons list.case ip_def rest_def)
  with assms have m: "m = ip @ optional_fraction rest" by simp
  from optional_fraction_cases [of rest] show ?thesis
  proof
    assume "optional_fraction rest = []"
    with m numeral_value_int [OF ip] show ?thesis by simp
  next
    assume "\<exists>fp. optional_fraction rest = CHR ''.'' # fp \<and> fp \<noteq> [] \<and> list_all is_digit fp"
    then obtain fp where fp: "optional_fraction rest = CHR ''.'' # fp" "fp \<noteq> []" "list_all is_digit fp"
      by blast
    from numeral_value_frac [OF ip fp(2,3)] m fp(1) show ?thesis by simp
  qed
qed

lemma pow2_pos: "0 < pow2 k"
  by (simp add: pow2_def)

lemma round_half_even_nonneg: "0 \<le> x \<Longrightarrow> 0 \<le> round_half_even x"
proof -
  assume "0 \<le> x"
  then have "0 \<le> \<lfloor>x\<rfloor>" by simp
  then show ?thesis by (simp add: round_half_even_def Let_def)
qed

lemma round_double_nonneg: "0 \<le> q \<Longrightarrow> 0 \<le> round_double q"
proof -
  assume q: "0 \<le> q"
  have "0 \<le> q / pow2 k" for k using q pow2_pos [of k] by simp
  then have "0 \<le> round_half_even (q / pow2 k)" for k by (rule round_half_even_nonneg)
  then have "0 \<le> rat_of_int (round_half_even (q / pow2 k)) * pow2 k" for k
    using pow2_pos [of k] by simp
  then show ?thesis by (simp add: round_double_def Let_def)
qed

lemma float_of_rat_cases:
  assumes "0 \<le> q"
  shows "(q < double_overflow \<longrightarrow> (\<exists>x. 0 \<le> x \<and> float_of_rat q = Fin x))
         \<and> (double_overflow \<le> q \<longrightarrow> float_of_rat q = PInf)"
  using round_double_nonneg [OF assms] by (auto simp: float_of_rat_def)

lemma first_numeral_None: "\<not> has_numeral s \<Longrightarrow> first_numeral s = None"
  using re_search_None [of s] by (simp add: first_numeral_def has_numeral_def)

lemma first_numeral_Some: "has_numeral s \<Longrightarrow> \<exists>q. first_numeral s = Some q \<and> 0 \<le> q"
proof -
  assume "has_numeral s"
  then obtain m where m: "re_search_numeral s = Some m"
    using re_search_None [of s] by (auto simp: has_numeral_def)
  from re_search_Some [OF m] m show ?thesis by (simp add: first_numeral_def)
qed

lemma parse_price_first_numeral:
  "parse_price repr (PStr s) =
     (case first_numeral (py_strip (remove_commas s)) of None \<Rightarrow> PInf | Some q \<Rightarrow> float_of_rat q)"
proof (cases "re_search_numeral (py_strip (remove_commas s))")
  case None
  then show ?thesis
    by (simp add: parse_price_def parse_price_try_def py_str_def first_numeral_def)
next
  case (Some m)
  from re_search_Some [OF Some] obtain q where "numeral_value m = Some q" by blast
  with Some show ?thesis
    by (simp add: parse_price_def parse_price_try_def py_str_def first_numeral_def py_float_def)
qed

lemma parse_rating_first_numeral:
  "parse_rating repr (PStr s) =
     (case first_numeral (py_strip s) of None \<Rightarrow> Fin 0 | Some q \<Rightarrow> float_of_rat q)"
proof (cases "re_search_numeral (py_strip s)")
  case None
  then show ?thesis
    by (simp add: parse_rating_def parse_rating_try_def py_str_def first_numeral_def)
next
  case (Some m)
  from re_search_Some [OF Some] obtain q where "numeral_value m = Some q" by blast
  with Some show ?thesis
    by (simp add: parse_rating_def parse_rating_try_def py_str_def first_numeral_def py_float_def)
qed

lemma has_numeral_clean_price: "has_numeral (py_strip (remove_commas s)) = has_numeral s"
  by (simp add: has_numeral_def list_ex_strip list_ex_remove_commas)

lemma has_numeral_clean_rating: "has_numeral (py_strip s) = has_numeral s"
  by (simp add: has_numeral_def list_ex_strip)

lemma py_strip_id:
  assumes "s \<noteq> []" "\<not> is_space (hd s)" "\<not> is_space (last s)"
  shows "py_strip s = s"
proof -
  from assms(1,2) have a: "dropWhile is_space s = s" by (cases s) simp_all
  from assms(1,3) have "dropWhile is_space (rev s) = rev s"
    by (cases "rev s") (simp_all add: hd_rev [symmetric] del: hd_rev)
  with a show ?thesis by (simp add: py_strip_def)
qed

lemma re_search_all_digits:
  assumes "s \<noteq> []" "list_all is_digit s"
  shows "re_search_numeral s = Some s"
proof -
  obtain d ds where s: "s = d # ds" using assms(1) by (cases s) auto
  with assms(2) have d: "is_digit d" by simp
  then have dw: "dropWhile (\<lambda>c. \<not> is_digit c) (d # ds) = d # ds" by simp
  from assms(2) s have tw: "takeWhile is_digit (d # ds) = d # ds" and dd: "dropWhile is_digit (d # ds) = []"
    by (simp_all add: list_all_iff)
  show ?thesis unfolding s re_search_numeral_def dw list.case tw dd by simp
qed

lemma nat_of_digits_snoc: "nat_of_digits (ds @ [c]) = 10 * nat_of_digits ds + digit_val c"
  by (simp add: nat_of_digits_def)

lemma nat_of_digits_zeros: "nat_of_digits (ds @ replicate n (CHR ''0'')) = nat_of_digits ds * 10 ^ n"
proof (induction n)
  case 0
  show ?case by simp
next
  case (Suc n)
  have "ds @ replicate (Suc n) (CHR ''0'') = (ds @ replicate n (CHR ''0'')) @ [CHR ''0'']"
    by (simp add: replicate_append_same)
  then show ?case using Suc by (simp only: nat_of_digits_snoc) (simp add: digit_val_def)
qed

lemma first_numeral_one_zeros:
  "first_numeral (CHR ''1'' # replicate n (CHR ''0'')) = Some (10 ^ n)"
proof -
  let ?s = "CHR ''1'' # replicate n (CHR ''0'')"
  have dig: "list_all is_digit ?s" by (simp add: list_all_iff is_digit_def)
  have "nat_of_digits ?s = 10 ^ n"
    using nat_of_digits_zeros [of "[CHR ''1'']" n] by (simp add: nat_of_digits_def digit_val_def)
  then show ?thesis
    using re_search_all_digits [OF _ dig] numeral_value_int [OF _ dig]
    by (simp add: first_numeral_def)
qed

lemma one_zeros_clean:
  "py_strip (remove_commas (CHR ''1'' # replicate n (CHR ''0''))) = CHR ''1'' # replicate n (CHR ''0'')"
proof -
  let ?s = "CHR ''1'' # replicate n (CHR ''0'')"
  have "remove_commas ?s = ?s" by (simp add: remove_commas_def)
  moreover have "py_strip ?s = ?s"
    by (rule py_strip_id) (simp_all add: is_space_def)
  ultimately show ?thesis by simp
qed

lemma first_numeral_price_example: "first_numeral (py_strip (remove_commas ''$1,199.99 only'')) = Some (119999 / 100)"
  by (simp add: first_numeral_def py_strip_def remove_commas_def is_space_def
      re_search_numeral_def is_digit_def numeral_value_def nat_of_digits_def digit_val_def)

lemma first_numeral_rating_example: "first_numeral (py_strip ''4.5 stars '') = Some (9 / 2)"
  by (simp add: first_numeral_def py_strip_def remove_commas_def is_space_def
      re_search_numeral_def is_digit_def numeral_value_def nat_of_digits_def digit_val_def)

subsection \<open>Order on floats and stable sorting\<close>

lemma flt_irrefl: "\<not> flt a a"
  by (cases a) simp_all

lemma flt_asym: "flt a b \<Longrightarrow> \<not> flt b a"
  by (cases a; cases b) simp_all

lemma flt_total: "flt a b \<or> a = b \<or> flt b a"
  by (cases a; cases b) auto

lemma flt_trans: "flt a b \<Longrightarrow> flt b c \<Longrightarrow> flt a c"
  by (cases a; cases b; cases c) simp_all

lemma flt_fneg: "flt (fneg a) (fneg b) = flt b a"
  by (cases a; cases b) simp_all

lemma fneg_inject: "fneg a = fneg b \<longleftrightarrow> a = b"
  by (cases a; cases b) simp_all

lemma tuple_lt_asym: "tuple_lt a b \<Longrightarrow> \<not> tuple_lt b a"
  by (cases a; cases b) (auto dest: flt_asym split: if_splits)

lemma tuple_le_trans: "\<not> tuple_lt b a \<Longrightarrow> \<not> tuple_lt c b \<Longrightarrow> \<not> tuple_lt c a"
proof -
  obtain a1 a2 b1 b2 c1 c2 where [simp]: "a = (a1, a2)" "b = (b1, b2)" "c = (c1, c2)"
    by (cases a; cases b; cases c) auto
  assume "\<not> tuple_lt b a" "\<not> tuple_lt c b"
  then show ?thesis
    using flt_total [of a1 b1] flt_total [of b1 c1] flt_total [of a2 b2] flt_total [of b2 c2]
      flt_trans [of a1 b1 c1] flt_trans [of a2 b2 c2] flt_asym [of a1 c1] flt_asym [of a2 c2]
      flt_irrefl [of a1] flt_irrefl [of a2]
    by (auto split: if_splits)
qed

lemma set_insort_stable: "set (insort_stable lt x ys) = insert x (set ys)"
  by (induction ys) auto

lemma length_insort_stable: "length (insort_stable lt x ys) = Suc (length ys)"
  by (induction ys) auto

lemma sorted_insort_stable:
  assumes asym: "\<And>a b. lt a b \<Longrightarrow> \<not> lt b a"
    and trans: "\<And>a b c. \<not> lt b a \<Longrightarrow> \<not> lt c b \<Longrightarrow> \<not> lt c a"
    and "sorted_wrt (\<lambda>u v. \<not> lt (fst v) (fst u)) ys"
  shows "sorted_wrt (\<lambda>u v. \<not> lt (fst v) (fst u)) (insort_stable lt x ys)"
  using assms(3)
proof (induction ys)
  case Nil
  show ?case by simp
next
  case (Cons y ys)
  show ?case
  proof (cases "lt (fst y) (fst x)")
    case True
    with Cons asym show ?thesis by (auto simp: set_insort_stable)
  next
    case False
    with Cons.prems trans show ?thesis by auto
  qed
qed

lemma set_stable_sort: "set (stable_sort lt xs) = set xs"
  by (induction xs) (simp_all add: stable_sort_def set_insort_stable)

lemma length_stable_sort: "length (stable_sort lt xs) = length xs"
  by (induction xs) (simp_all add: stable_sort_def length_insort_stable)

lemma sorted_stable_sort:
  assumes "\<And>a b. lt a b \<Longrightarrow> \<not> lt b a"
    and "\<And>a b c. \<not> lt b a \<Longrightarrow> \<not> lt c b \<Longrightarrow> \<not> lt c a"
  shows "sorted_wrt (\<lambda>u v. \<not> lt (fst v) (fst u)) (stable_sort lt xs)"
proof (induction xs)
  case Nil
  show ?case by (simp add: stable_sort_def)
next
  case (Cons x xs)
  have "stable_sort lt (x # xs) = insort_stable lt x (stable_sort lt xs)"
    by (simp add: stable_sort_def)
  with sorted_insort_stable [OF assms Cons] show ?case by simp
qed

subsection \<open>Items with their numeric entries\<close>

lemma wf_item_nonempty: "wf_item x \<Longrightarrow> x \<noteq> []"
  by (auto simp: wf_item_def price_rating_def item_float_def split: sum.splits)

lemma wf_item_update:
  "wf_item (AList.update ''numeric_rating'' (PFloat r) (AList.update ''numeric_price'' (PFloat p) d))"
  by (simp add: wf_item_def price_rating_def item_float_def update_conv')

lemma collect_valid_wf:
  "collect_valid repr xs acc = Inr v \<Longrightarrow> list_all wf_item acc \<Longrightarrow> list_all wf_item v"
proof (induction xs arbitrary: acc)
  case Nil
  then show ?case by simp
next
  case (Cons x xs)
  then obtain d where x: "x = PDict d" by (cases x) auto
  show ?case
    using Cons.prems Cons.IH unfolding x
    by (auto simp: Let_def wf_item_update split: if_splits)
qed

lemma collect_valid_dicts:
  "(\<exists>v. collect_valid repr xs acc = Inr v) \<longleftrightarrow> list_all is_dict xs"
proof (induction xs arbitrary: acc)
  case Nil
  show ?case by simp
next
  case (Cons x xs)
  show ?case
  proof (cases x)
    case (PDict d)
    with Cons show ?thesis by (simp add: Let_def is_dict_def)
  qed (simp_all add: is_dict_def)
qed

lemma decorate_wf:
  "list_all wf_item xs \<Longrightarrow> \<exists>ks. decorate xs = Inr ks \<and> map snd ks = xs \<and> list_all (\<lambda>kx. sort_key (snd kx) = Inr (fst kx)) ks"
proof (induction xs)
  case Nil
  show ?case by simp
next
  case (Cons x xs)
  then obtain ks where ks: "decorate xs = Inr ks" "map snd ks = xs"
    "list_all (\<lambda>kx. sort_key (snd kx) = Inr (fst kx)) ks" by auto
  from Cons.prems obtain k where "sort_key x = Inr k"
    by (auto simp: wf_item_def price_rating_def sort_key_def split: sum.splits)
  with ks show ?case by simp
qed

subsection \<open>The returned result\<close>

lemma fneg_fneg: "fneg (fneg a) = a"
  by (cases a) simp_all

lemma sort_key_price_rating:
  "sort_key x = Inr k \<Longrightarrow> price_rating x = Inr (fst k, fneg (snd k))"
  by (auto simp: sort_key_def price_rating_def fneg_fneg split: sum.splits)

lemma ranks_le_tuple_lt:
  "ranks_le (fst k, fneg (snd k)) (fst k', fneg (snd k')) = (\<not> tuple_lt k' k)"
proof -
  obtain a b a' b' where [simp]: "k = (a, b)" "k' = (a', b')" by (cases k; cases k') auto
  show ?thesis
    using flt_total [of a a'] flt_asym [of a a'] flt_irrefl [of a]
    by (auto simp: flt_fneg fneg_inject)
qed

lemma list_sort_wf:
  assumes "list_all wf_item xs"
  shows "\<exists>ys. list_sort xs = Inr ys \<and> set ys = set xs \<and> length ys = length xs
           \<and> (\<exists>prs. map price_rating ys = map Inr prs \<and> sorted_wrt ranks_le prs)"
proof -
  from decorate_wf [OF assms] obtain ks where ks: "decorate xs = Inr ks" "map snd ks = xs"
    "list_all (\<lambda>kx. sort_key (snd kx) = Inr (fst kx)) ks" by blast
  define ss where "ss = stable_sort tuple_lt ks"
  define ys where "ys = map snd ss"
  define prs where "prs = map (\<lambda>kx. (fst (fst kx), fneg (snd (fst kx)))) ss"
  have set_ss: "set ss = set ks" by (simp add: ss_def set_stable_sort)
  have 1: "list_sort xs = Inr ys" by (simp add: list_sort_def ks(1) ys_def ss_def)
  have "set ys = snd ` set ks" using set_ss by (simp add: ys_def)
  also have "\<dots> = set xs" using ks(2) by (metis set_map)
  finally have 2: "set ys = set xs" .
  have 3: "length ys = length xs" using ks(2) by (auto simp: ys_def ss_def length_stable_sort)
  have "\<forall>kx \<in> set ss. price_rating (snd kx) = Inr (fst (fst kx), fneg (snd (fst kx)))"
    using ks(3) set_ss by (auto simp: list_all_iff intro: sort_key_price_rating)
  then have 4: "map price_rating ys = map Inr prs" by (simp add: ys_def prs_def)
  have "sorted_wrt (\<lambda>u v. \<not> tuple_lt (fst v) (fst u)) ss"
    unfolding ss_def by (rule sorted_stable_sort) (auto dest: tuple_lt_asym tuple_le_trans)
  then have 5: "sorted_wrt ranks_le prs"
    by (simp add: prs_def sorted_wrt_map ranks_le_tuple_lt del: ranks_le.simps)
  from 1 2 3 4 5 show ?thesis by blast
qed

lemma strip_fence_total: "\<exists>json_str. strip_fence output = Inr json_str"
proof -
  have idx: "sep \<noteq> [] \<Longrightarrow> contains s sep \<Longrightarrow> \<exists>a. py_index (py_split sep s) 1 = Inr a" for sep s
  proof -
    assume "sep \<noteq> []" "contains s sep"
    then obtain b a where "find_sep sep s = Some (b, a)" by (auto simp: contains_def)
    with \<open>sep \<noteq> []\<close> have "py_split sep s = b # py_split sep a"
      by (simp add: py_split.simps [of sep s])
    moreover have "py_split sep a \<noteq> []"
      by (simp add: py_split.simps [of sep a] split: option.splits prod.splits)
    ultimately show ?thesis by (cases "py_split sep a") (simp_all add: py_index_def)
  qed
  have idx0: "\<exists>b. py_index (py_split sep s) 0 = Inr b" for sep s
    by (simp add: py_split.simps [of sep s] py_index_def split: option.splits prod.splits)
  have ne: "fence \<noteq> []" "fence_json \<noteq> []" by (simp_all add: fence_def fence_json_def)
  show ?thesis
    unfolding strip_fence_def Let_def
    using idx [OF ne(1)] idx [OF ne(2)] idx0
    by (auto split: sum.splits) (metis sum.distinct(1))+
qed

lemma parse_result_undecoded:
  "decode_items loads repr output = Inl ex \<or> decode_items loads repr output = Inr None
   \<Longrightarrow> parse_result loads repr app_name output = failed_result app_name output"
  by (auto simp: parse_result_def parse_try_def snapshot_def failed_result_def)

lemma parse_result_no_items:
  "decode_items loads repr output = Inr (Some [])
   \<Longrightarrow> parse_result loads repr app_name output =
       \<lparr>platform = app_name, status = ''success'', items = [], best_item = None, raw_response = output\<rparr>"
  by (simp add: parse_result_def parse_try_def snapshot_def)

lemma parse_result_items:
  assumes "decode_items loads repr output = Inr (Some v)" "v \<noteq> []" "list_sort v = Inr ys" "ys \<noteq> []"
  shows "parse_result loads repr app_name output =
       \<lparr>platform = app_name, status = ''success'', items = ys, best_item = Some (hd ys), raw_response = output\<rparr>"
  using assms by (simp add: parse_result_def parse_try_def snapshot_def py_index_def hd_conv_nth)

lemma decode_items_wf:
  "decode_items loads repr output = Inr (Some v) \<Longrightarrow> list_all wf_item v"
  by (auto simp: decode_items_def split: sum.splits if_splits dest: collect_valid_wf)

lemma decode_items_Some_iff:
  "(\<exists>v. decode_items loads repr output = Inr (Some v)) \<longleftrightarrow> decoded_objects loads output"
proof -
  have "(\<exists>v. (case collect_valid repr xs [] of Inl e \<Rightarrow> Inl e | Inr valid_items \<Rightarrow> Inr (Some valid_items)) = Inr (Some v))
      \<longleftrightarrow> list_all is_dict xs" for xs
    using collect_valid_dicts [of repr xs "[]"] by (auto split: sum.splits)
  then show ?thesis
    unfolding decode_items_def decoded_objects_def candidates_are_objects_def
    by (auto split: sum.splits)
qed

lemma parse_result_cases:
  "(\<not> decoded_objects loads output \<and> parse_result loads repr app_name output = failed_result app_name output)
   \<or> (decoded_objects loads output \<and>
       (\<exists>ys. parse_result loads repr app_name output =
          \<lparr>platform = app_name, status = ''success'', items = ys,
           best_item = (if ys = [] then None else Some (hd ys)), raw_response = output\<rparr>
          \<and> list_all wf_item ys
          \<and> (\<exists>prs. map price_rating ys = map Inr prs \<and> sorted_wrt ranks_le prs)))"
proof (cases "decoded_objects loads output")
  case False
  then have "\<nexists>v. decode_items loads repr output = Inr (Some v)"
    by (simp add: decode_items_Some_iff)
  then have "decode_items loads repr output = Inr None \<or> (\<exists>ex. decode_items loads repr output = Inl ex)"
    by (cases "decode_items loads repr output") auto
  with False show ?thesis by (auto simp: parse_result_undecoded)
next
  case True
  then obtain v where v: "decode_items loads repr output = Inr (Some v)"
    using decode_items_Some_iff [of loads repr "output"] by blast
  have wf: "list_all wf_item v" using v by (rule decode_items_wf)
  show ?thesis
  proof (cases "v = []")
    case True
    with v \<open>decoded_objects loads output\<close> show ?thesis
      by (auto simp: parse_result_no_items intro!: exI [of _ "[]"])
  next
    case False
    from list_sort_wf [OF wf] obtain ys prs where ys: "list_sort v = Inr ys" "set ys = set v"
      "length ys = length v" "map price_rating ys = map Inr prs" "sorted_wrt ranks_le prs" by blast
    from ys(3) False have ne: "ys \<noteq> []" by auto
    have "list_all wf_item ys" using wf ys(2) by (simp add: list_all_iff)
    with parse_result_items [OF v False ys(1) ne] ne ys(4,5) \<open>decoded_objects loads output\<close>
    show ?thesis by auto
  qed
qed

lemma decoded_objects_decode: "decoded_objects loads output \<Longrightarrow> decode_succeeds loads output"
  by (auto simp: decoded_objects_def decode_succeeds_def split: sum.splits)







subsection \<open>Sample runs of the parser\<close>

lemmas string_eval =
  py_strip_def is_space_def remove_commas_def re_search_numeral_def is_digit_def
  numeral_value_def nat_of_digits_def digit_val_def first_numeral_def

lemmas fence_eval = strip_fence_def contains_def fence_def fence_json_def py_index_def startswith_def

lemma float_of_rat_examples:
  "float_of_rat 10 = Fin 10" "float_of_rat 20 = Fin 20" "float_of_rat 3 = Fin 3" "float_of_rat 4 = Fin 4"
  "float_of_rat 5 = Fin 5"
  "float_of_rat 0 = Fin 0"
  "float_of_rat 999999 = Fin 999999"
  "float_of_rat (9 / 2) = Fin (9 / 2)"
  "float_of_rat (19999 / 100) = Fin (879565321755689 / 4398046511104)"
  by (simp_all add: float_of_rat_def double_overflow_def float_eval)

lemma parse_price_examples:
  "parse_price repr (PStr ''10'') = Fin 10"
  "parse_price repr (PStr ''20'') = Fin 20"
  "parse_price repr (PStr ''999999'') = Fin 999999"
  "parse_price repr (PStr ''$199.99'') = Fin (879565321755689 / 4398046511104)"
  by (simp_all add: parse_price_first_numeral string_eval float_of_rat_examples)

lemma parse_rating_examples:
  "parse_rating repr (PStr ''3'') = Fin 3"
  "parse_rating repr (PStr ''4'') = Fin 4"
  "parse_rating repr (PStr ''5'') = Fin 5"
  "parse_rating repr (PStr ''0'') = Fin 0"
  "parse_rating repr (PStr ''4.5 stars'') = Fin (9 / 2)"
  by (simp_all add: parse_rating_first_numeral string_eval float_of_rat_examples)


lemma strip_fence_examples:
  "strip_fence ''[1]'' = Inr ''[1]''"
  "strip_fence ''[oops'' = Inr ''[oops''"
  "strip_fence ''no items here'' = Inr ''no items here''"
  "strip_fence ''[{\"title\":\"Phone\",\"price\":\"$199.99\",\"rating\":\"4.5 stars\"}]''
     = Inr ''[{\"title\":\"Phone\",\"price\":\"$199.99\",\"rating\":\"4.5 stars\"}]''"
  "strip_fence ''[{\"title\":\"A\",\"price\":\"20\",\"rating\":\"4\"},{\"title\":\"B\",\"price\":\"10\",\"rating\":\"3\"}]''
     = Inr ''[{\"title\":\"A\",\"price\":\"20\",\"rating\":\"4\"},{\"title\":\"B\",\"price\":\"10\",\"rating\":\"3\"}]''"
  "strip_fence ''[{\"title\":\"C\",\"price\":\"10\",\"rating\":\"3\"}]''
     = Inr ''[{\"title\":\"C\",\"price\":\"10\",\"rating\":\"3\"}]''"
  by (simp_all add: fence_eval py_strip_def is_space_def)

lemma decode_items_examples:
  "decode_items sample_loads sample_repr ''[1]'' = Inl (AttributeError (no_attribute_get (PInt 1)))"
  "decode_items sample_loads sample_repr ''[oops'' = Inl (ValueError ''Expecting value: line 1 column 2 (char 1)'')"
  "decode_items sample_loads sample_repr ''no items here'' = Inr None"
  "decode_items sample_loads sample_repr
       ''[{\"title\":\"Phone\",\"price\":\"$199.99\",\"rating\":\"4.5 stars\"}]''
     = Inr (Some [[(''title'', PStr ''Phone''), (''price'', PStr ''$199.99''), (''rating'', PStr ''4.5 stars''),
                   (''numeric_price'', PFloat (Fin (879565321755689 / 4398046511104))),
                   (''numeric_rating'', PFloat (Fin (9 / 2)))]])"
  "decode_items sample_loads sample_repr
       ''[{\"title\":\"A\",\"price\":\"20\",\"rating\":\"4\"},{\"title\":\"B\",\"price\":\"10\",\"rating\":\"3\"}]''
     = Inr (Some [[(''title'', PStr ''A''), (''price'', PStr ''20''), (''rating'', PStr ''4''),
                   (''numeric_price'', PFloat (Fin 20)), (''numeric_rating'', PFloat (Fin 4))],
                  [(''title'', PStr ''B''), (''price'', PStr ''10''), (''rating'', PStr ''3''),
                   (''numeric_price'', PFloat (Fin 10)), (''numeric_rating'', PFloat (Fin 3))]])"
  "decode_items sample_loads sample_repr ''[{\"title\":\"C\",\"price\":\"10\",\"rating\":\"3\"}]''
     = Inr (Some [[(''title'', PStr ''C''), (''price'', PStr ''10''), (''rating'', PStr ''3''),
                   (''numeric_price'', PFloat (Fin 10)), (''numeric_rating'', PFloat (Fin 3))]])"
  by (simp_all add: decode_items_def strip_fence_examples sample_loads_def startswith_def py_iter_def
      dict_get_def Let_def parse_price_examples parse_rating_examples)

lemmas sort_eval = list_sort_def sort_key_def item_float_def stable_sort_def

lemma parse_result_examples:
  "parse_result sample_loads sample_repr app ''[1]'' = failed_result app ''[1]''"
  "parse_result sample_loads sample_repr app ''[oops'' = failed_result app ''[oops''"
  "parse_result sample_loads sample_repr app ''no items here'' = failed_result app ''no items here''"
  "parse_result sample_loads sample_repr app
       ''[{\"title\":\"Phone\",\"price\":\"$199.99\",\"rating\":\"4.5 stars\"}]''
     = \<lparr>platform = app, status = ''success'',
        items = [[(''title'', PStr ''Phone''), (''price'', PStr ''$199.99''), (''rating'', PStr ''4.5 stars''),
                  (''numeric_price'', PFloat (Fin (879565321755689 / 4398046511104))),
                  (''numeric_rating'', PFloat (Fin (9 / 2)))]],
        best_item = Some [(''title'', PStr ''Phone''), (''price'', PStr ''$199.99''), (''rating'', PStr ''4.5 stars''),
                  (''numeric_price'', PFloat (Fin (879565321755689 / 4398046511104))),
                  (''numeric_rating'', PFloat (Fin (9 / 2)))],
        raw_response = ''[{\"title\":\"Phone\",\"price\":\"$199.99\",\"rating\":\"4.5 stars\"}]''\<rparr>"
  "parse_result sample_loads sample_repr app
       ''[{\"title\":\"A\",\"price\":\"20\",\"rating\":\"4\"},{\"title\":\"B\",\"price\":\"10\",\"rating\":\"3\"}]''
     = \<lparr>platform = app, status = ''success'',
        items = [[(''title'', PStr ''B''), (''price'', PStr ''10''), (''rating'', PStr ''3''),
                   (''numeric_price'', PFloat (Fin 10)), (''numeric_rating'', PFloat (Fin 3))],
                 [(''title'', PStr ''A''), (''price'', PStr ''20''), (''rating'', PStr ''4''),
                   (''numeric_price'', PFloat (Fin 20)), (''numeric_rating'', PFloat (Fin 4))]],
        best_item = Some [(''title'', PStr ''B''), (''price'', PStr ''10''), (''rating'', PStr ''3''),
                   (''numeric_price'', PFloat (Fin 10)), (''numeric_rating'', PFloat (Fin 3))],
        raw_response = ''[{\"title\":\"A\",\"price\":\"20\",\"rating\":\"4\"},{\"title\":\"B\",\"price\":\"10\",\"rating\":\"3\"}]''\<rparr>"
  by (simp_all add: parse_result_def parse_try_def decode_items_examples snapshot_def failed_result_def
      sort_eval py_index_def)

lemma decode_succeeds_examples:
  "decode_succeeds sample_loads ''[1]''"
  "\<not> decode_succeeds sample_loads ''[oops''"
  "\<not> decode_succeeds sample_loads ''no items here''"
  by (simp_all add: decode_succeeds_def strip_fence_examples startswith_def sample_loads_def)

subsection \<open>The background task\<close>










subsection \<open>The broadcast loop\<close>









subsection \<open>Fence stripping\<close>

lemma contains_iff_sublist: "contains s sep \<longleftrightarrow> sublist sep s"
proof (induction s)
  case Nil
  show ?case by (simp add: contains_def)
next
  case (Cons c cs)
  then show ?case
    by (auto simp: contains_def sublist_Cons_right)
qed

lemma sublist_across_char:
  assumes "c \<notin> set sep"
  shows "sublist sep (v @ c # w) \<longleftrightarrow> sublist sep v \<or> sublist sep w"
proof
  assume "sublist sep (v @ c # w)"
  then consider "sublist sep v" | "sublist sep (c # w)"
    | x1 x2 where "sep = x1 @ x2" "suffix x1 v" "prefix x2 (c # w)"
    by (auto simp: sublist_append)
  then show "sublist sep v \<or> sublist sep w"
  proof cases
    case 1
    then show ?thesis by simp
  next
    case 2
    then have "prefix sep (c # w) \<or> sublist sep w" by (simp add: sublist_Cons_right)
    moreover have "prefix sep (c # w) \<Longrightarrow> sep = []"
      using assms by (cases sep) auto
    ultimately show ?thesis by auto
  next
    case 3
    show ?thesis
    proof (cases x2)
      case Nil
      with 3 show ?thesis by auto
    next
      case (Cons y ys)
      with 3 have "y = c" by simp
      with Cons 3(1) assms show ?thesis by simp
    qed
  qed
next
  assume "sublist sep v \<or> sublist sep w"
  then show "sublist sep (v @ c # w)"
  proof
    assume "sublist sep v"
    then show ?thesis by (auto simp: sublist_def) (metis append.assoc)
  next
    assume "sublist sep w"
    then obtain ps ss where "w = ps @ sep @ ss" by (auto simp: sublist_def)
    then have "v @ c # w = (v @ c # ps) @ sep @ ss" by simp
    then show ?thesis unfolding sublist_def by blast
  qed
qed

lemma sublist_shrink:
  assumes "sublist (a @ b) (u @ c)" "length c \<le> length b"
  shows "sublist a u"
proof -
  from assms(1) obtain ps ss where e: "u @ c = ps @ (a @ b) @ ss" by (auto simp: sublist_def)
  then have "length u + length c = length ps + length a + length b + length ss"
    by (metis length_append add.assoc)
  with assms(2) have le: "length ps + length a \<le> length u" by simp
  have "take (length ps + length a) (u @ c) = take (length ps + length a) (ps @ (a @ b) @ ss)"
    by (simp only: e)
  with le have "take (length ps + length a) u = ps @ a" by simp
  then have "u = ps @ a @ drop (length ps + length a) u"
    by (metis append.assoc append_take_drop_id)
  then show ?thesis unfolding sublist_def by blast
qed

lemma find_sep_prefix: "sep \<noteq> [] \<Longrightarrow> find_sep sep (sep @ r) = Some ([], r)"
proof -
  assume "sep \<noteq> []"
  then obtain c cs where e: "sep @ r = c # cs" by (cases sep) auto
  have "prefix sep (c # cs)" by (simp only: e [symmetric] prefixI)
  moreover have "drop (length sep) (c # cs) = r" by (simp only: e [symmetric] drop_eq_Nil append_eq_conv_conj) simp
  ultimately show ?thesis by (simp only: e find_sep.simps if_True)
qed

lemma find_sep_first:
  assumes "sep \<noteq> []"
  shows "\<not> sublist sep (u @ butlast sep) \<Longrightarrow> find_sep sep (u @ sep @ r) = Some (u, r)"
proof (induction u)
  case Nil
  show ?case using find_sep_prefix [OF assms] by simp
next
  case (Cons c u)
  have np: "\<not> prefix sep ((c # u) @ sep @ r)"
  proof
    assume p: "prefix sep ((c # u) @ sep @ r)"
    have "(c # u) @ sep @ r = ((c # u) @ butlast sep) @ last sep # r"
      using assms by (simp add: append_butlast_last_id [symmetric] del: append_butlast_last_id)
    then have "prefix ((c # u) @ butlast sep) ((c # u) @ sep @ r)"
      by (metis prefixI)
    moreover have "length sep \<le> length ((c # u) @ butlast sep)" by simp
    ultimately have "prefix sep ((c # u) @ butlast sep)"
      using p by (meson prefix_length_prefix)
    with Cons.prems show False by auto
  qed
  from Cons.prems have "\<not> sublist sep (u @ butlast sep)"
    by (simp add: sublist_Cons_right)
  with Cons.IH have "find_sep sep (u @ sep @ r) = Some (u, r)" by simp
  with np show ?case by simp
qed

lemma py_split_not_found: "\<not> contains s sep \<Longrightarrow> py_split sep s = [s]"
proof -
  assume "\<not> contains s sep"
  then have "find_sep sep s = None" by (cases "find_sep sep s") (auto simp: contains_def)
  then show ?thesis by (simp add: py_split.simps [of sep s])
qed

lemma py_split_found:
  "sep \<noteq> [] \<Longrightarrow> find_sep sep s = Some (b, a) \<Longrightarrow> py_split sep s = b # py_split sep a"
  by (simp add: py_split.simps [of sep s])

lemma py_strip_Cons_space: "is_space c \<Longrightarrow> py_strip (c # s) = py_strip s"
  by (simp add: py_strip_def)

lemma py_strip_snoc_space: "is_space c \<Longrightarrow> py_strip (s @ [c]) = py_strip s"
proof (cases "dropWhile is_space s = []")
  case True
  assume c: "is_space c"
  from True have "\<forall>x \<in> set s. is_space x" by (simp add: dropWhile_eq_Nil_conv)
  with c have "dropWhile is_space (s @ [c]) = []" by (simp add: dropWhile_eq_Nil_conv)
  with True show ?thesis by (simp only: py_strip_def)
next
  case False
  assume c: "is_space c"
  from False have "\<exists>x \<in> set s. \<not> is_space x" by (simp add: dropWhile_eq_Nil_conv)
  then obtain x where "x \<in> set s" "\<not> is_space x" by blast
  then have "dropWhile is_space (s @ [c]) = dropWhile is_space s @ [c]"
    by (rule dropWhile_append1)
  with c show ?thesis by (simp add: py_strip_def)
qed

lemma sublist_py_strip: "sublist (py_strip s) s"
proof -
  have "suffix (dropWhile is_space (rev (dropWhile is_space s))) (rev (dropWhile is_space s))"
    by (rule suffix_dropWhile)
  then have "prefix (py_strip s) (dropWhile is_space s)"
    by (simp add: suffix_to_prefix py_strip_def)
  then have "sublist (py_strip s) (dropWhile is_space s)" by (rule prefix_imp_sublist)
  moreover have "sublist (dropWhile is_space s) s" by (rule sublist_dropWhile)
  ultimately show ?thesis by (rule sublist_order.order_trans)
qed

lemma fence_facts:
  "fence \<noteq> []" "fence_json \<noteq> []" "newline \<notin> set fence" "is_space newline"
  "sublist fence fence_json" "length fence = 3" "butlast fence = [CHR 0x60, CHR 0x60]"
  "\<not> is_space (CHR 0x60)" "hd fence_json = CHR 0x60" "last fence = CHR 0x60"
  by (simp_all add: fence_def fence_json_def newline_def is_space_def)

lemma strip_fence_plain:
  assumes "\<not> contains t fence"
  shows "strip_fence t = Inr (py_strip t)"
proof -
  have "\<not> sublist fence (py_strip t)"
    using assms sublist_py_strip [of t] by (auto simp: contains_iff_sublist dest: sublist_order.order_trans)
  moreover then have "\<not> sublist fence_json (py_strip t)"
    using fence_facts(5) by (auto dest: sublist_order.order_trans)
  ultimately show ?thesis by (simp add: strip_fence_def contains_iff_sublist)
qed

lemma strip_fence_fenced:
  assumes "\<not> contains t fence"
  shows "strip_fence (fenced_json t) = Inr (py_strip t)"
proof -
  define u where "u = newline # t @ [newline]"
  define w where "w = fenced_json t"
  have w: "w = fence_json @ u @ fence" by (simp add: w_def u_def fenced_json_def)
  have nt: "\<not> sublist fence t" using assms by (simp add: contains_iff_sublist)
  have short: "\<not> sublist fence xs" if "length xs < 3" for xs
    using that sublist_length_le [of fence xs] fence_facts(6) by auto
  have nu: "\<not> sublist fence u"
    using nt short [of "[]"] sublist_across_char [OF fence_facts(3), of "[]" "t @ [newline]"]
      sublist_across_char [OF fence_facts(3), of t "[]"]
    by (simp add: u_def)
  have nub: "\<not> sublist fence (u @ butlast fence)"
    using nt short [of "[]"] short [of "butlast fence"]
      sublist_across_char [OF fence_facts(3), of "[]" "t @ newline # butlast fence"]
      sublist_across_char [OF fence_facts(3), of t "butlast fence"]
    by (simp add: u_def fence_facts(7))
  have nj: "\<not> sublist fence_json (u @ fence)"
    using sublist_shrink [of fence "''json''" u fence] nu by (auto simp: fence_json_def fence_facts(6))
  have strip_w: "py_strip w = w"
    by (rule py_strip_id) (simp_all add: w fence_facts fence_def fence_json_def)
  have cont: "contains w fence_json" by (simp add: contains_iff_sublist w)
  have "find_sep fence_json w = Some ([], u @ fence)"
    unfolding w by (rule find_sep_prefix) (rule fence_facts(2))
  then have "py_split fence_json w = [] # py_split fence_json (u @ fence)"
    by (rule py_split_found [OF fence_facts(2)])
  also have "py_split fence_json (u @ fence) = [u @ fence]"
    by (rule py_split_not_found) (simp add: contains_iff_sublist nj)
  finally have s1: "py_index (py_split fence_json w) 1 = Inr (u @ fence)"
    by (simp add: py_index_def)
  have "find_sep fence (u @ fence @ []) = Some (u, [])"
    by (rule find_sep_first [OF fence_facts(1) nub])
  then have "py_split fence (u @ fence) = u # py_split fence []"
    using py_split_found [OF fence_facts(1), of "u @ fence" u "[]"] by simp
  then have s2: "py_index (py_split fence (u @ fence)) 0 = Inr u"
    by (simp add: py_index_def)
  have "py_strip u = py_strip t"
    unfolding u_def using py_strip_Cons_space [OF fence_facts(4)] py_strip_snoc_space [OF fence_facts(4)]
    by simp
  with strip_w cont s1 s2 show ?thesis
    unfolding w_def [symmetric] strip_fence_def by (simp add: Let_def)
qed

lemma parse_result_same_decode:
  assumes "decode_items loads repr o1 = decode_items loads repr o2"
  shows "parse_result loads repr app_name o1 = (parse_result loads repr app_name o2)\<lparr>raw_response := o1\<rparr>"
  using assms
  by (auto simp: parse_result_def parse_try_def snapshot_def Let_def split: sum.splits option.splits)

subsection \<open>A title that holds a fenced snippet\<close>

lemma strip_fence_backticks_in_title:
  "strip_fence backticks_in_title = Inr ''{}''"
  "strip_fence (fenced_json backticks_in_title)
     = Inr ''[{\"title\":\"a''"
  by (simp_all add: backticks_in_title_def strip_fence_def contains_def fence_def fence_json_def fenced_json_def newline_def
      py_index_def py_split.simps py_strip_def is_space_def Let_def)

lemma parse_result_backticks_in_title:
  "parse_result sample_loads sample_repr ''Amazon'' backticks_in_title
     = \<lparr>platform = ''Amazon'', status = ''success'',
        items = [[(''numeric_price'', PFloat (Fin 999999)), (''numeric_rating'', PFloat (Fin 0))]],
        best_item = Some [(''numeric_price'', PFloat (Fin 999999)), (''numeric_rating'', PFloat (Fin 0))],
        raw_response = backticks_in_title\<rparr>"
  "parse_result sample_loads sample_repr ''Amazon''
       (fenced_json backticks_in_title)
     = failed_result ''Amazon'' (fenced_json backticks_in_title)"
  by (simp_all add: parse_result_def parse_try_def decode_items_def strip_fence_backticks_in_title
      sample_loads_def startswith_def py_iter_def dict_get_def Let_def parse_price_examples
      parse_rating_examples snapshot_def failed_result_def sort_eval py_index_def)

subsection \<open>The comparison run\<close>

lemma perform_search_returns:
  assumes "droid_available e" "agent_run e (task_goal a q it) = Inr out"
  shows "perform_search e a q it dev
           = (dev @ [task_goal a q it], Inr (parse_result (json_loads e) (py_repr e) a out))"
  using assms by (simp add: perform_search_def)

lemma char_of_lower:
  "char_of (97 :: nat) = CHR ''a''" "char_of (102 :: nat) = CHR ''f''"
  "char_of (122 :: nat) = CHR ''z''" "char_of (115 :: nat) = CHR ''s''"
  by code_simp+

lemma py_lower_platforms:
  "py_lower ''Amazon'' = ''amazon''" "py_lower ''Flipkart'' = ''flipkart''"
  "py_lower ''Zomato'' = ''zomato''" "py_lower ''Swiggy'' = ''swiggy''"
  by (simp_all add: py_lower_def lower_char_def char_of_lower)

lemma lower_platforms_distinct: "py_lower (fst (platforms_of t)) \<noteq> py_lower (snd (platforms_of t))"
  by (cases t) (simp_all add: platforms_of_def py_lower_platforms)

lemma best_item_wf:
  "best_item (parse_result loads repr a out) = Some b \<Longrightarrow> wf_item b"
proof -
  assume b: "best_item (parse_result loads repr a out) = Some b"
  from parse_result_cases [of loads out repr a]
  show ?thesis
  proof (elim disjE conjE exE)
    assume "parse_result loads repr a out = failed_result a out"
    with b show ?thesis by (simp add: failed_result_def)
  next
    fix ys prs
    assume r: "parse_result loads repr a out =
          \<lparr>platform = a, status = ''success'', items = ys,
           best_item = (if ys = [] then None else Some (hd ys)), raw_response = out\<rparr>"
      and wf: "list_all wf_item ys"
    from b r have "ys \<noteq> []" "b = hd ys" by (auto split: if_splits)
    with wf show ?thesis by (cases ys) simp_all
  qed
qed

lemma wf_item_price_rating: "wf_item a \<Longrightarrow> \<exists>p r. price_rating a = Inr (p, r)"
  by (cases "price_rating a") (auto simp: wf_item_def)

lemma compare_best_wf:
  assumes "price_rating a = Inr (pa, ra)" "price_rating b = Inr (pb, rb)"
  shows "compare_best p0 p1 a b =
     Inr (if flt pa pb then (Some p0, p0 @ '' is cheaper.'')
          else if flt pb pa then (Some p1, p1 @ '' is cheaper.'')
          else if flt rb ra then (Some p0, ''Prices equal, but '' @ p0 @ '' has better rating.'')
          else (Some p1, ''Prices equal, but '' @ p1 @ '' has better rating.''))"
  using assms by (auto simp: compare_best_def price_rating_def split: sum.splits)

lemma main_async_unfold:
  assumes "droid_available e"
    and "agent_run e (task_goal (fst (platforms_of t)) q (item_type_of t)) = Inr out0"
    and "agent_run e (task_goal (snd (platforms_of t)) q (item_type_of t)) = Inr out1"
  shows "main_async e t q device =
     (let p0 = fst (platforms_of t); p1 = snd (platforms_of t);
          r0 = parse_result (json_loads e) (py_repr e) p0 out0;
          r1 = parse_result (json_loads e) (py_repr e) p1 out1;
          device' = device @ [task_goal p0 q (item_type_of t), task_goal p1 q (item_type_of t)]
      in case comparison_logic p0 p1 (best_item r0) (best_item r1) of
           Inl ex \<Rightarrow> (device', Inl ex)
         | Inr (best_platform, rec) \<Rightarrow>
             (device',
              Inr \<lparr>query = q, category = task_name t, winner_platform = best_platform,
                   recommendation = rec,
                   details = [(py_lower p0, r0), (py_lower p1, r1)]\<rparr>))"
  using lower_platforms_distinct [of t]
  by (simp add: main_async_def Let_def perform_search_returns [OF assms(1)] assms(2,3) best_of_def)

lemma perform_search_agent_fault:
  "droid_available e \<Longrightarrow> agent_run e (task_goal a q it) = Inl ex
   \<Longrightarrow> perform_search e a q it dev = (dev @ [task_goal a q it], Inl ex)"
  by (simp add: perform_search_def)

lemma main_async_first_fault:
  "droid_available e \<Longrightarrow> agent_run e (task_goal (fst (platforms_of t)) q (item_type_of t)) = Inl ex
   \<Longrightarrow> main_async e t q dev = (dev @ [task_goal (fst (platforms_of t)) q (item_type_of t)], Inl ex)"
  by (simp add: main_async_def perform_search_def)

subsection \<open>Sample comparison runs\<close>

lemma decode_items_more_examples:
  "decode_items sample_loads sample_repr ''[{\"title\":\"D\",\"price\":\"10\",\"rating\":\"5\"}]''
     = Inr (Some [[(''title'', PStr ''D''), (''price'', PStr ''10''), (''rating'', PStr ''5''),
                   (''numeric_price'', PFloat (Fin 10)), (''numeric_rating'', PFloat (Fin 5))]])"
  by (simp add: decode_items_def fence_eval py_strip_def is_space_def sample_loads_def py_iter_def
      dict_get_def Let_def parse_price_examples parse_rating_examples)

lemma best_item_examples:
  "best_item (parse_result sample_loads sample_repr app ''no items here'') = None"
  "best_item (parse_result sample_loads sample_repr app
       ''[{\"title\":\"Phone\",\"price\":\"$199.99\",\"rating\":\"4.5 stars\"}]'')
     = Some [(''title'', PStr ''Phone''), (''price'', PStr ''$199.99''), (''rating'', PStr ''4.5 stars''),
             (''numeric_price'', PFloat (Fin (879565321755689 / 4398046511104))),
             (''numeric_rating'', PFloat (Fin (9 / 2)))]"
  "best_item (parse_result sample_loads sample_repr app ''[{\"title\":\"C\",\"price\":\"10\",\"rating\":\"3\"}]'')
     = Some [(''title'', PStr ''C''), (''price'', PStr ''10''), (''rating'', PStr ''3''),
             (''numeric_price'', PFloat (Fin 10)), (''numeric_rating'', PFloat (Fin 3))]"
  "best_item (parse_result sample_loads sample_repr app ''[{\"title\":\"D\",\"price\":\"10\",\"rating\":\"5\"}]'')
     = Some [(''title'', PStr ''D''), (''price'', PStr ''10''), (''rating'', PStr ''5''),
             (''numeric_price'', PFloat (Fin 10)), (''numeric_rating'', PFloat (Fin 5))]"
  by (simp_all add: parse_result_def parse_try_def decode_items_examples decode_items_more_examples
      snapshot_def sort_eval py_index_def)

lemma price_rating_examples:
  "price_rating [(''title'', PStr ''Phone''), (''price'', PStr ''$199.99''), (''rating'', PStr ''4.5 stars''),
             (''numeric_price'', PFloat (Fin (879565321755689 / 4398046511104))),
             (''numeric_rating'', PFloat (Fin (9 / 2)))]
     = Inr (Fin (879565321755689 / 4398046511104), Fin (9 / 2))"
  "price_rating [(''title'', PStr ''C''), (''price'', PStr ''10''), (''rating'', PStr ''3''),
             (''numeric_price'', PFloat (Fin 10)), (''numeric_rating'', PFloat (Fin 3))]
     = Inr (Fin 10, Fin 3)"
  "price_rating [(''title'', PStr ''D''), (''price'', PStr ''10''), (''rating'', PStr ''5''),
             (''numeric_price'', PFloat (Fin 10)), (''numeric_rating'', PFloat (Fin 5))]
     = Inr (Fin 10, Fin 5)"
  by (simp_all add: price_rating_def item_float_def)

lemma sample_goals:
  "task_goal ''Flipkart'' ''phone'' ''product'' \<noteq> task_goal ''Amazon'' ''phone'' ''product''"
  by (simp add: task_goal_def)

section \<open>The claims\<close>

subsection \<open>C1: a session in which the agent raises\<close>

text \<open>
  C1 says that \<open>perform_search\<close> turns an exception of the agent into a result with
  status \<open>failed\<close> and that the workflow goes on to the next platform. The code does
  neither: \<open>agent.run()\<close> is awaited before the \<open>try\<close> statement, so in the run below,
  where the agent raises on the Amazon search, \<open>perform_search\<close> returns no result but
  the exception, and \<open>main_async\<close> ends with the same exception after the one Amazon
  goal, without giving the device the Flipkart goal.
\<close>

theorem agent_fault_propagates:
  "perform_search faulting_env ''Amazon'' ''phone'' ''product'' []
     = ([task_goal ''Amazon'' ''phone'' ''product''], Inl (AgentFault ''device offline''))
   \<and> main_async faulting_env Shopping ''phone'' []
     = ([task_goal ''Amazon'' ''phone'' ''product''], Inl (AgentFault ''device offline''))"
  by (simp add: perform_search_def main_async_def faulting_env_def platforms_of_def item_type_of_def)

subsection \<open>C2: the winner of a comparison\<close>

text \<open>
  C2. In every run of \<open>main_async\<close> in which both sessions return, whatever the two raw
  outputs are, the printed document holds the two per-platform results, and its winner
  follows from their best items: with both present, the strictly lower numeric price
  wins; at equal price the strictly higher numeric rating wins; at equal price and
  equal rating the second platform wins; with exactly one present, its platform wins;
  with none, there is no winner and the recommendation is "No valid items found.".
\<close>

theorem main_async_winner:
  assumes "droid_available e"
    and "agent_run e (task_goal (fst (platforms_of t)) q (item_type_of t)) = Inr out0"
    and "agent_run e (task_goal (snd (platforms_of t)) q (item_type_of t)) = Inr out1"
    and "r0 = parse_result (json_loads e) (py_repr e) (fst (platforms_of t)) out0"
    and "r1 = parse_result (json_loads e) (py_repr e) (snd (platforms_of t)) out1"
  shows "\<exists>fo. snd (main_async e t q device) = Inr fo
     \<and> details fo = [(py_lower (fst (platforms_of t)), r0), (py_lower (snd (platforms_of t)), r1)]
     \<and> (case (best_item r0, best_item r1) of
          (Some a, Some b) \<Rightarrow>
            (\<exists>pa ra pb rb. price_rating a = Inr (pa, ra) \<and> price_rating b = Inr (pb, rb)
               \<and> (flt pa pb \<longrightarrow> winner_platform fo = Some (fst (platforms_of t)))
               \<and> (flt pb pa \<longrightarrow> winner_platform fo = Some (snd (platforms_of t)))
               \<and> (pa = pb \<and> flt rb ra \<longrightarrow> winner_platform fo = Some (fst (platforms_of t)))
               \<and> (pa = pb \<and> flt ra rb \<longrightarrow> winner_platform fo = Some (snd (platforms_of t)))
               \<and> (pa = pb \<and> ra = rb \<longrightarrow> winner_platform fo = Some (snd (platforms_of t))))
        | (Some a, None) \<Rightarrow> winner_platform fo = Some (fst (platforms_of t))
        | (None, Some b) \<Rightarrow> winner_platform fo = Some (snd (platforms_of t))
        | (None, None) \<Rightarrow>
            winner_platform fo = None \<and> recommendation fo = ''No valid items found.'')"
proof -
  let ?p0 = "fst (platforms_of t)" and ?p1 = "snd (platforms_of t)"
  note unfold = main_async_unfold [OF assms(1,2,3), of device, unfolded Let_def, folded assms(4,5)]
  show ?thesis
  proof (cases "best_item r0")
    case None
    note n0 = this
    show ?thesis
    proof (cases "best_item r1")
      case None
      with n0 show ?thesis
        by (simp add: unfold comparison_logic_def truthy_item_def)
    next
      case (Some b)
      then have "wf_item b" unfolding assms(5) by (rule best_item_wf)
      then have "b \<noteq> []" by (rule wf_item_nonempty)
      with n0 Some show ?thesis
        by (simp add: unfold comparison_logic_def truthy_item_def)
    qed
  next
    case (Some a)
    note s0 = this
    then have "wf_item a" unfolding assms(4) by (rule best_item_wf)
    then have a: "a \<noteq> []" and "\<exists>p r. price_rating a = Inr (p, r)"
      by (auto dest: wf_item_nonempty wf_item_price_rating)
    then obtain pa ra where pra: "price_rating a = Inr (pa, ra)" by blast
    show ?thesis
    proof (cases "best_item r1")
      case None
      with s0 a show ?thesis
        by (simp add: unfold comparison_logic_def truthy_item_def)
    next
      case (Some b)
      then have "wf_item b" unfolding assms(5) by (rule best_item_wf)
      then have b: "b \<noteq> []" and "\<exists>p r. price_rating b = Inr (p, r)"
        by (auto dest: wf_item_nonempty wf_item_price_rating)
      then obtain pb rb where prb: "price_rating b = Inr (pb, rb)" by blast
      have cl: "comparison_logic ?p0 ?p1 (Some a) (Some b) = compare_best ?p0 ?p1 a b"
        using a b by (simp add: comparison_logic_def truthy_item_def)
      show ?thesis
        by (auto simp: unfold s0 Some cl compare_best_wf [OF pra prb] pra prb flt_irrefl
            dest: flt_asym)
    qed
  qed
qed

text \<open>
  Instances of C2 on the shopping task: a tie in price and rating, each platform
  cheaper in turn, each platform better rated at equal price in turn, each platform
  alone with a valid item in turn, and no valid item at all.
\<close>

theorem main_async_winner_witness:
  "(\<exists>fo. snd (main_async (sample_env ''[{\"title\":\"C\",\"price\":\"10\",\"rating\":\"3\"}]''
                                      ''[{\"title\":\"C\",\"price\":\"10\",\"rating\":\"3\"}]'')
                 Shopping ''phone'' []) = Inr fo
         \<and> winner_platform fo = Some ''Flipkart'')
   \<and> (\<exists>fo. snd (main_async (sample_env ''[{\"title\":\"C\",\"price\":\"10\",\"rating\":\"3\"}]''
                                      ''[{\"title\":\"Phone\",\"price\":\"$199.99\",\"rating\":\"4.5 stars\"}]'')
                 Shopping ''phone'' []) = Inr fo
         \<and> winner_platform fo = Some ''Amazon'')
   \<and> (\<exists>fo. snd (main_async (sample_env ''[{\"title\":\"Phone\",\"price\":\"$199.99\",\"rating\":\"4.5 stars\"}]''
                                      ''[{\"title\":\"C\",\"price\":\"10\",\"rating\":\"3\"}]'')
                 Shopping ''phone'' []) = Inr fo
         \<and> winner_platform fo = Some ''Flipkart'')
   \<and> (\<exists>fo. snd (main_async (sample_env ''[{\"title\":\"D\",\"price\":\"10\",\"rating\":\"5\"}]''
                                      ''[{\"title\":\"C\",\"price\":\"10\",\"rating\":\"3\"}]'')
                 Shopping ''phone'' []) = Inr fo
         \<and> winner_platform fo = Some ''Amazon'')
   \<and> (\<exists>fo. snd (main_async (sample_env ''[{\"title\":\"C\",\"price\":\"10\",\"rating\":\"3\"}]''
                                      ''[{\"title\":\"D\",\"price\":\"10\",\"rating\":\"5\"}]'')
                 Shopping ''phone'' []) = Inr fo
         \<and> winner_platform fo = Some ''Flipkart'')
   \<and> (\<exists>fo. snd (main_async (sample_env ''[{\"title\":\"C\",\"price\":\"10\",\"rating\":\"3\"}]''
                                      ''no items here'')
                 Shopping ''phone'' []) = Inr fo
         \<and> winner_platform fo = Some ''Amazon'')
   \<and> (\<exists>fo. snd (main_async (sample_env ''no items here''
                                      ''[{\"title\":\"C\",\"price\":\"10\",\"rating\":\"3\"}]'')
                 Shopping ''phone'' []) = Inr fo
         \<and> winner_platform fo = Some ''Flipkart'')
   \<and> (\<exists>fo. snd (main_async (sample_env ''no items here'' ''no items here'')
                 Shopping ''phone'' []) = Inr fo
         \<and> winner_platform fo = None \<and> recommendation fo = ''No valid items found.'')"
proof -
  have run: "droid_available (sample_env x y)"
    "agent_run (sample_env x y) (task_goal (fst (platforms_of Shopping)) ''phone'' (item_type_of Shopping)) = Inr x"
    "agent_run (sample_env x y) (task_goal (snd (platforms_of Shopping)) ''phone'' (item_type_of Shopping)) = Inr y"
    for x y
    using sample_goals by (simp_all add: sample_env_def platforms_of_def item_type_of_def)
  have names: "fst (platforms_of Shopping) = ''Amazon''" "snd (platforms_of Shopping) = ''Flipkart''"
    "json_loads (sample_env x y) = sample_loads" "py_repr (sample_env x y) = sample_repr" for x y
    by (simp_all add: platforms_of_def sample_env_def)
  note inst = main_async_winner [OF run refl refl, of _ _ "[]", unfolded names]
  show ?thesis
    by (intro conjI)
      (use inst in \<open>fastforce simp: best_item_examples price_rating_examples\<close>)+
qed

subsection \<open>C3: the status of a parsed result\<close>

text \<open>
  C3, as amended. For every raw output text and every behaviour of \<open>json.loads\<close>, the
  parsing step returns a result and raises nothing; the result names the platform and
  keeps the raw text, and its status is \<open>success\<close> or \<open>failed\<close>. When structured decode
  is not tried or fails, with whatever exception, the result is the failed one: no
  items, no best item. A failed status always comes with no items and no best item.
  The status is \<open>success\<close> exactly when structured decode succeeded and every decoded
  candidate is an object, however many of them pass the validity filter.
\<close>

theorem parse_result_status:
  "platform (parse_result loads repr app_name output) = app_name
   \<and> raw_response (parse_result loads repr app_name output) = output
   \<and> (status (parse_result loads repr app_name output) = ''success''
        \<or> status (parse_result loads repr app_name output) = ''failed'')
   \<and> (\<not> decode_succeeds loads output
        \<longrightarrow> parse_result loads repr app_name output = failed_result app_name output)
   \<and> (status (parse_result loads repr app_name output) = ''failed''
        \<longrightarrow> parse_result loads repr app_name output = failed_result app_name output)
   \<and> (status (parse_result loads repr app_name output) = ''success''
        \<longleftrightarrow> decoded_objects loads output)"
  using parse_result_cases [of loads "output" repr app_name] decoded_objects_decode [of loads "output"]
  by (auto simp: failed_result_def)

text \<open>
  Instances of C3: a text that does not decode, and the list of one phone.
\<close>

theorem parse_result_status_witness:
  "\<not> decode_succeeds sample_loads ''[oops''
   \<and> status (parse_result sample_loads sample_repr ''Amazon'' ''[oops'') = ''failed''
   \<and> parse_result sample_loads sample_repr ''Amazon'' ''[oops'' = failed_result ''Amazon'' ''[oops''
   \<and> status (parse_result sample_loads sample_repr ''Amazon''
         ''[{\"title\":\"Phone\",\"price\":\"$199.99\",\"rating\":\"4.5 stars\"}]'') = ''success''
   \<and> decoded_objects sample_loads ''[{\"title\":\"Phone\",\"price\":\"$199.99\",\"rating\":\"4.5 stars\"}]''"
proof -
  have a: "\<not> decode_succeeds sample_loads ''[oops''" by (rule decode_succeeds_examples)
  have b: "status (parse_result sample_loads sample_repr ''Amazon''
         ''[{\"title\":\"Phone\",\"price\":\"$199.99\",\"rating\":\"4.5 stars\"}]'') = ''success''"
    by (simp add: parse_result_examples)
  from parse_result_status [of sample_loads sample_repr "''Amazon''" "''[oops''"] a
  have c: "parse_result sample_loads sample_repr ''Amazon'' ''[oops'' = failed_result ''Amazon'' ''[oops''"
    by blast
  then have d: "status (parse_result sample_loads sample_repr ''Amazon'' ''[oops'') = ''failed''"
    by (simp add: failed_result_def)
  from parse_result_status [of sample_loads sample_repr "''Amazon''"
      "''[{\"title\":\"Phone\",\"price\":\"$199.99\",\"rating\":\"4.5 stars\"}]''"] b
  have e: "decoded_objects sample_loads ''[{\"title\":\"Phone\",\"price\":\"$199.99\",\"rating\":\"4.5 stars\"}]''"
    by blast
  from a b c d e show ?thesis by blast
qed

text \<open>
  C3 as stated fails: the text \<open>[1]\<close> decodes (to the list of the number one), and
  the status is \<open>failed\<close>, because a number has no \<open>get\<close> and the loop raises.
\<close>

theorem decoded_list_of_numbers_fails:
  "decode_succeeds sample_loads ''[1]''
   \<and> status (parse_result sample_loads sample_repr ''Amazon'' ''[1]'') = ''failed''"
  by (simp add: decode_succeeds_examples parse_result_examples failed_result_def)

subsection \<open>C4: disconnecting a socket that is not registered\<close>

text \<open>
  C4, as amended. \<open>disconnect\<close> of a registered socket removes one occurrence of it and
  leaves the other sockets as they were. \<open>disconnect\<close> of a socket that is not
  registered raises \<open>ValueError\<close>; the registry is then unchanged, since the list is
  only replaced on success. So in a registry without repetitions a second
  \<open>disconnect\<close> of the same socket raises.
\<close>

theorem disconnect_registered_only:
  "(websocket \<in> set conns \<longrightarrow>
      (\<exists>conns'. disconnect websocket conns = Inr conns'
         \<and> length conns' + 1 = length conns
         \<and> (\<forall>w. w \<noteq> websocket \<longrightarrow> count_list conns' w = count_list conns w)
         \<and> count_list conns' websocket + 1 = count_list conns websocket
         \<and> (distinct conns \<longrightarrow>
               disconnect websocket conns' = Inl (ValueError ''list.remove(x): x not in list''))))
   \<and> (websocket \<notin> set conns \<longrightarrow>
        disconnect websocket conns = Inl (ValueError ''list.remove(x): x not in list''))"
proof (intro conjI impI)
  assume w: "websocket \<in> set conns"
  have len: "length (remove1 websocket conns) + 1 = length conns"
    using w by (simp add: length_remove1) (cases conns; simp)
  have cnt: "count_list (remove1 x xs) y = (if x = y \<and> x \<in> set xs then count_list xs y - 1 else count_list xs y)"
    for x y :: websocket and xs
    by (induction xs) auto
  have pos: "0 < count_list conns websocket" using w count_list_0_iff [of conns websocket] by auto
  have "distinct conns \<Longrightarrow> websocket \<notin> set (remove1 websocket conns)" by simp
  then show "\<exists>conns'. disconnect websocket conns = Inr conns'
         \<and> length conns' + 1 = length conns
         \<and> (\<forall>w. w \<noteq> websocket \<longrightarrow> count_list conns' w = count_list conns w)
         \<and> count_list conns' websocket + 1 = count_list conns websocket
         \<and> (distinct conns \<longrightarrow>
               disconnect websocket conns' = Inl (ValueError ''list.remove(x): x not in list''))"
    using w len pos by (auto simp: disconnect_def cnt)
next
  assume "websocket \<notin> set conns"
  then show "disconnect websocket conns = Inl (ValueError ''list.remove(x): x not in list'')"
    by (simp add: disconnect_def)
qed

text \<open>
  Instances of C4: socket 7 in the registry \<open>[3, 7]\<close>, and socket 7 in the registry \<open>[3]\<close>.
\<close>

theorem disconnect_registered_only_witness:
  "(7::nat) \<in> set [3, 7] \<and> distinct [3, 7 :: nat]
   \<and> disconnect 7 [3, 7] = Inr [3]
   \<and> disconnect 7 [3] = Inl (ValueError ''list.remove(x): x not in list'')
   \<and> (7::nat) \<notin> set [3]"
proof -
  have a: "(7::nat) \<in> set [3, 7]" and b: "distinct [3, 7 :: nat]" and c: "(7::nat) \<notin> set [3]"
    by simp_all
  have d: "disconnect 7 [3, 7] = Inr [3]" by (simp add: disconnect_def)
  from disconnect_registered_only [of 7 "[3, 7]"] a b d
  have "disconnect 7 [3] = Inl (ValueError ''list.remove(x): x not in list'')" by auto
  with a b c d show ?thesis by simp
qed

text \<open>
  C4 as stated fails: the second \<open>disconnect\<close> of the same socket raises, and so does a
  \<open>disconnect\<close> of a socket that was never connected.
\<close>

theorem disconnect_twice_raises:
  "disconnect 7 [7] = Inr []
   \<and> disconnect 7 [] = Inl (ValueError ''list.remove(x): x not in list'')
   \<and> disconnect 9 [7] = Inl (ValueError ''list.remove(x): x not in list'')"
  by (simp add: disconnect_def)

subsection \<open>C5: the terminal event of a task\<close>





subsection \<open>C6: what the two extractors return\<close>

text \<open>
  C6, as amended. \<open>parse_price\<close> and \<open>parse_rating\<close> return a float for every text
  and never raise (every exception inside is turned into the default). If the text
  has no digit, the price is \<open>+infinity\<close> and the rating is \<open>0.0\<close>. If it has one, the
  pattern finds a numeral of value \<open>p \<ge> 0\<close> (after the commas are removed, for the
  price) and \<open>r \<ge> 0\<close> (for the rating); the result is a finite float that is not
  negative when that value is below the overflow point of binary64,
  \<open>2^1024 - 2^970\<close>, and \<open>+infinity\<close> from there on.
\<close>

theorem parse_price_rating_numeral:
  "(\<not> has_numeral s \<longrightarrow> parse_price repr (PStr s) = PInf \<and> parse_rating repr (PStr s) = Fin 0)
   \<and> (has_numeral s \<longrightarrow>
        (\<exists>p r. first_numeral (py_strip (remove_commas s)) = Some p \<and> 0 \<le> p
              \<and> first_numeral (py_strip s) = Some r \<and> 0 \<le> r
              \<and> (p < double_overflow \<longrightarrow> (\<exists>x. 0 \<le> x \<and> parse_price repr (PStr s) = Fin x))
              \<and> (double_overflow \<le> p \<longrightarrow> parse_price repr (PStr s) = PInf)
              \<and> (r < double_overflow \<longrightarrow> (\<exists>y. 0 \<le> y \<and> parse_rating repr (PStr s) = Fin y))
              \<and> (double_overflow \<le> r \<longrightarrow> parse_rating repr (PStr s) = PInf)))"
proof (intro conjI impI)
  assume n: "\<not> has_numeral s"
  then have "first_numeral (py_strip (remove_commas s)) = None"
    by (intro first_numeral_None) (simp add: has_numeral_clean_price)
  then show "parse_price repr (PStr s) = PInf" by (simp add: parse_price_first_numeral)
  from n have "first_numeral (py_strip s) = None"
    by (intro first_numeral_None) (simp add: has_numeral_clean_rating)
  then show "parse_rating repr (PStr s) = Fin 0" by (simp add: parse_rating_first_numeral)
next
  assume h: "has_numeral s"
  then obtain p where p: "first_numeral (py_strip (remove_commas s)) = Some p" "0 \<le> p"
    using first_numeral_Some [of "py_strip (remove_commas s)"] by (auto simp: has_numeral_clean_price)
  from h obtain r where r: "first_numeral (py_strip s) = Some r" "0 \<le> r"
    using first_numeral_Some [of "py_strip s"] by (auto simp: has_numeral_clean_rating)
  have pp: "parse_price repr (PStr s) = float_of_rat p"
    using p(1) by (simp add: parse_price_first_numeral)
  have rr: "parse_rating repr (PStr s) = float_of_rat r"
    using r(1) by (simp add: parse_rating_first_numeral)
  show "\<exists>p r. first_numeral (py_strip (remove_commas s)) = Some p \<and> 0 \<le> p
              \<and> first_numeral (py_strip s) = Some r \<and> 0 \<le> r
              \<and> (p < double_overflow \<longrightarrow> (\<exists>x. 0 \<le> x \<and> parse_price repr (PStr s) = Fin x))
              \<and> (double_overflow \<le> p \<longrightarrow> parse_price repr (PStr s) = PInf)
              \<and> (r < double_overflow \<longrightarrow> (\<exists>y. 0 \<le> y \<and> parse_rating repr (PStr s) = Fin y))
              \<and> (double_overflow \<le> r \<longrightarrow> parse_rating repr (PStr s) = PInf)"
    using p r float_of_rat_cases [OF p(2)] float_of_rat_cases [OF r(2)]
    unfolding pp rr by blast
qed

text \<open>
  Instances of C6: a text without a digit, a price, a rating, and a numeral of 401
  digits.
\<close>

theorem parse_price_rating_numeral_witness:
  "\<not> has_numeral ''n/a'' \<and> parse_price (\<lambda>v. []) (PStr ''n/a'') = PInf
   \<and> parse_rating (\<lambda>v. []) (PStr ''n/a'') = Fin 0
   \<and> has_numeral ''$1,199.99 only''
   \<and> (\<exists>x. 0 \<le> x \<and> parse_price (\<lambda>v. []) (PStr ''$1,199.99 only'') = Fin x)
   \<and> has_numeral ''4.5 stars ''
   \<and> (\<exists>y. 0 \<le> y \<and> parse_rating (\<lambda>v. []) (PStr ''4.5 stars '') = Fin y)
   \<and> has_numeral (CHR ''1'' # replicate 400 (CHR ''0''))
   \<and> parse_price (\<lambda>v. []) (PStr (CHR ''1'' # replicate 400 (CHR ''0''))) = PInf
   \<and> parse_rating (\<lambda>v. []) (PStr (CHR ''1'' # replicate 400 (CHR ''0''))) = PInf"
proof -
  have a: "\<not> has_numeral ''n/a''" by (simp add: has_numeral_def is_digit_def)
  have b: "has_numeral ''$1,199.99 only''" by (simp add: has_numeral_def is_digit_def)
  have c: "has_numeral ''4.5 stars ''" by (simp add: has_numeral_def is_digit_def)
  have d: "has_numeral (CHR ''1'' # replicate 400 (CHR ''0''))" by (simp add: has_numeral_def is_digit_def)
  have small: "(119999 / 100 :: rat) < double_overflow" "(9 / 2 :: rat) < double_overflow"
    by (simp_all add: double_overflow_def)
  have big: "double_overflow \<le> 10 ^ 400" by (simp add: double_overflow_def)
  have e: "py_strip (CHR ''1'' # replicate 400 (CHR ''0'')) = CHR ''1'' # replicate 400 (CHR ''0'')"
    by (rule py_strip_id) (simp_all add: is_space_def)
  from parse_price_rating_numeral [of "''n/a''" "\<lambda>v. []"] a
  have 1: "parse_price (\<lambda>v. []) (PStr ''n/a'') = PInf \<and> parse_rating (\<lambda>v. []) (PStr ''n/a'') = Fin 0"
    by blast
  from parse_price_rating_numeral [of "''$1,199.99 only''" "\<lambda>v. []"] b small(1)
  have 2: "\<exists>x. 0 \<le> x \<and> parse_price (\<lambda>v. []) (PStr ''$1,199.99 only'') = Fin x"
    unfolding first_numeral_price_example by auto
  from parse_price_rating_numeral [of "''4.5 stars ''" "\<lambda>v. []"] c small(2)
  have 3: "\<exists>y. 0 \<le> y \<and> parse_rating (\<lambda>v. []) (PStr ''4.5 stars '') = Fin y"
    unfolding first_numeral_rating_example by auto
  from parse_price_rating_numeral [of "CHR ''1'' # replicate 400 (CHR ''0'')" "\<lambda>v. []"] d big
  have 4: "parse_price (\<lambda>v. []) (PStr (CHR ''1'' # replicate 400 (CHR ''0''))) = PInf
     \<and> parse_rating (\<lambda>v. []) (PStr (CHR ''1'' # replicate 400 (CHR ''0''))) = PInf"
    unfolding one_zeros_clean e first_numeral_one_zeros by auto
  from a b c d 1 2 3 4 show ?thesis by blast
qed

text \<open>
  C6 as stated fails: the text of a one followed by 309 zeros contains a numeral, and its
  price is \<open>+infinity\<close>, not a finite float.
\<close>

theorem parse_price_overflow:
  "has_numeral (CHR ''1'' # replicate 309 (CHR ''0''))
   \<and> parse_price (\<lambda>v. []) (PStr (CHR ''1'' # replicate 309 (CHR ''0''))) = PInf"
proof
  show "has_numeral (CHR ''1'' # replicate 309 (CHR ''0''))"
    by (simp add: has_numeral_def is_digit_def)
  have "double_overflow \<le> 10 ^ 309" by (simp add: double_overflow_def)
  then show "parse_price (\<lambda>v. []) (PStr (CHR ''1'' # replicate 309 (CHR ''0''))) = PInf"
    by (simp add: parse_price_first_numeral one_zeros_clean first_numeral_one_zeros float_of_rat_def)
qed

subsection \<open>C7: broadcast is best effort\<close>





subsection \<open>C9: parsing a fenced item list\<close>

text \<open>
  C9, as amended. For every text that holds no run of three backticks, wrapping it in a
  fenced code block with the \<open>json\<close> tag and parsing gives the same status, the same
  items (titles, numeric prices and ratings included) and the same best item as parsing
  the text itself.
\<close>

theorem fenced_json_round_trip:
  assumes "\<not> contains t fence"
  shows "status (parse_result loads repr app_name (fenced_json t)) = status (parse_result loads repr app_name t)
     \<and> items (parse_result loads repr app_name (fenced_json t)) = items (parse_result loads repr app_name t)
     \<and> best_item (parse_result loads repr app_name (fenced_json t)) = best_item (parse_result loads repr app_name t)"
proof -
  have "strip_fence (fenced_json t) = strip_fence t"
    using assms by (simp add: strip_fence_fenced strip_fence_plain)
  then have "decode_items loads repr (fenced_json t) = decode_items loads repr t"
    by (simp add: decode_items_def)
  from parse_result_same_decode [OF this] show ?thesis by simp
qed

text \<open>
  An instance of C9: the list of one item \<open>C\<close>.
\<close>

theorem fenced_json_round_trip_witness:
  "\<not> contains ''[{\"title\":\"C\",\"price\":\"10\",\"rating\":\"3\"}]'' fence
   \<and> status (parse_result sample_loads sample_repr ''Amazon''
         (fenced_json ''[{\"title\":\"C\",\"price\":\"10\",\"rating\":\"3\"}]'')) = ''success''
   \<and> items (parse_result sample_loads sample_repr ''Amazon''
         (fenced_json ''[{\"title\":\"C\",\"price\":\"10\",\"rating\":\"3\"}]''))
       = [[(''title'', PStr ''C''), (''price'', PStr ''10''), (''rating'', PStr ''3''),
           (''numeric_price'', PFloat (Fin 10)), (''numeric_rating'', PFloat (Fin 3))]]
   \<and> best_item (parse_result sample_loads sample_repr ''Amazon''
         (fenced_json ''[{\"title\":\"C\",\"price\":\"10\",\"rating\":\"3\"}]''))
       = Some [(''title'', PStr ''C''), (''price'', PStr ''10''), (''rating'', PStr ''3''),
           (''numeric_price'', PFloat (Fin 10)), (''numeric_rating'', PFloat (Fin 3))]"
proof -
  have a: "\<not> contains ''[{\"title\":\"C\",\"price\":\"10\",\"rating\":\"3\"}]'' fence"
    by (simp add: contains_def fence_def)
  have b: "parse_result sample_loads sample_repr ''Amazon'' ''[{\"title\":\"C\",\"price\":\"10\",\"rating\":\"3\"}]''
     = \<lparr>platform = ''Amazon'', status = ''success'',
        items = [[(''title'', PStr ''C''), (''price'', PStr ''10''), (''rating'', PStr ''3''),
           (''numeric_price'', PFloat (Fin 10)), (''numeric_rating'', PFloat (Fin 3))]],
        best_item = Some [(''title'', PStr ''C''), (''price'', PStr ''10''), (''rating'', PStr ''3''),
           (''numeric_price'', PFloat (Fin 10)), (''numeric_rating'', PFloat (Fin 3))],
        raw_response = ''[{\"title\":\"C\",\"price\":\"10\",\"rating\":\"3\"}]''\<rparr>"
    by (simp add: parse_result_def parse_try_def decode_items_examples snapshot_def sort_eval py_index_def)
  from fenced_json_round_trip [OF a, of sample_loads sample_repr "''Amazon''"] a b
  show ?thesis by simp
qed

text \<open>
  C9 as stated fails on an item list whose title holds a fenced snippet: parsed as it
  is, the text between its own fences is taken, decodes to one object and gives
  \<open>success\<close> with one item; wrapped, the interior is cut at the first fence of the
  title, does not decode, and the result is \<open>failed\<close> with no items.
\<close>

theorem fenced_backticks_in_title_differs:
  "status (parse_result sample_loads sample_repr ''Amazon''
       backticks_in_title) = ''success''
   \<and> length (items (parse_result sample_loads sample_repr ''Amazon''
       backticks_in_title)) = 1
   \<and> status (parse_result sample_loads sample_repr ''Amazon''
       (fenced_json backticks_in_title)) = ''failed''
   \<and> items (parse_result sample_loads sample_repr ''Amazon''
       (fenced_json backticks_in_title)) = []"
  by (simp add: parse_result_backticks_in_title failed_result_def)

subsection \<open>C10: the items are sorted and the best item is the first\<close>



end
